theory Spec2Isabelle
  imports Main "HOL-Library.Char_ord" "HOL-Library.List_Lexorder"
begin

section \<open>JavaScript strings\<close>

text \<open>
  A string is a sequence of code units; the model covers the code units of the Latin-1
  range (U+0000 to U+00FF), one \<open>char\<close> each. In that range \<open>String.prototype.trim\<close>
  removes TAB, LF, VT, FF, CR, SPACE and NBSP from both ends, and
  \<open>String.prototype.toLowerCase\<close> maps A-Z and U+00C0 to U+00DE (except the
  multiplication sign U+00D7) to the code unit 32 above.
\<close>

definition isWhiteSpace :: "char \<Rightarrow> bool" where
  "isWhiteSpace c =
     (let n = (of_char c :: nat)
      in n = 9 \<or> n = 10 \<or> n = 11 \<or> n = 12 \<or> n = 13 \<or> n = 32 \<or> n = 160)"

definition toLowerCaseChar :: "char \<Rightarrow> char" where
  "toLowerCaseChar c =
     (let n = (of_char c :: nat)
      in if (65 \<le> n \<and> n \<le> 90) \<or> (192 \<le> n \<and> n \<le> 222 \<and> n \<noteq> 215)
         then char_of (n + 32) else c)"

definition toLowerCase :: "string \<Rightarrow> string" where
  "toLowerCase s = map toLowerCaseChar s"

definition trimStart :: "string \<Rightarrow> string" where
  "trimStart s = dropWhile isWhiteSpace s"

definition trim :: "string \<Rightarrow> string" where
  "trim s = rev (dropWhile isWhiteSpace (rev (dropWhile isWhiteSpace s)))"

text \<open>The expression \<open>x.toLowerCase().trim()\<close> that the verifier applies to every string.\<close>

definition normalize :: "string \<Rightarrow> string" where
  "normalize s = trim (toLowerCase s)"

section \<open>JSON values and HTTP responses\<close>

text \<open>
  The values \<open>JSON.parse\<close> can return. The magnitude of a number is never inspected
  by the code modelled here, so numbers are integers.
\<close>

datatype json =
    JNull
  | JBool bool
  | JNumber int
  | JString string
  | JArray "json list"
  | JObject "(string \<times> json) list"

text \<open>\<open>res.status(s).json(b)\<close>; \<open>res.json(b)\<close> alone has status 200.\<close>

datatype response = Response (status: nat) (body: json)

section \<open>parseInt\<close>

text \<open>
  \<open>parseInt(s)\<close> with no radix: leading white space is skipped, one sign is read, a
  \<open>0x\<close> or \<open>0X\<close> prefix selects radix 16, and the longest prefix of digits of the
  radix is the value; everything after it is ignored. The result is \<open>NaN\<close> (here
  \<open>None\<close>) exactly when that prefix of digits is empty. The value is kept exact
  (JavaScript rounds it to a double, and \<open>-0\<close> is \<open>0\<close> here); \<open>isNaN\<close> of the
  result does not depend on it.
\<close>

definition digitValue :: "char \<Rightarrow> nat option" where
  "digitValue c =
     (let n = (of_char c :: nat)
      in if 48 \<le> n \<and> n \<le> 57 then Some (n - 48)
         else if 97 \<le> n \<and> n \<le> 122 then Some (n - 87)
         else if 65 \<le> n \<and> n \<le> 90 then Some (n - 55)
         else None)"

definition isRadixDigit :: "nat \<Rightarrow> char \<Rightarrow> bool" where
  "isRadixDigit R c = (case digitValue c of None \<Rightarrow> False | Some d \<Rightarrow> d < R)"

definition mathInt :: "nat \<Rightarrow> string \<Rightarrow> nat" where
  "mathInt R Z = foldl (\<lambda>acc c. acc * R + (case digitValue c of None \<Rightarrow> 0 | Some d \<Rightarrow> d)) 0 Z"

definition parseInt :: "string \<Rightarrow> int option" where
  "parseInt inputString =
     (let S = trimStart inputString;
          sign = (if S \<noteq> [] \<and> hd S = CHR ''-'' then - 1 else 1 :: int);
          S1 = (if S \<noteq> [] \<and> (hd S = CHR ''+'' \<or> hd S = CHR ''-'') then tl S else S);
          hex = (take 2 S1 = ''0x'' \<or> take 2 S1 = ''0X'');
          R = (if hex then 16 else 10 :: nat);
          S2 = (if hex then drop 2 S1 else S1);
          Z = takeWhile (isRadixDigit R) S2
      in if Z = [] then None else Some (sign * int (mathInt R Z)))"

section \<open>Answer verification (POST /api/questions/:questionId/verify)\<close>

text \<open>
  The validated request body \<open>{answer: string | string[]}\<close>, and the
  \<open>correctAnswers\<close> column of a question row: text holding JSON, or a value that is
  already an array (the handler tests \<open>Array.isArray\<close> first).
\<close>

datatype answer = Str string | Arr "string list"

datatype column_value = TextValue string | ArrayValue "json list"

record question =
  question_id :: int
  question_quizId :: int
  question_text :: string
  question_type :: string
  question_options :: string
  question_correctAnswers :: column_value
  question_hint :: "string option"
  question_order :: int
  question_imageUrl :: "string option"

text \<open>
  \<open>new Set(xs)\<close> adds the elements in order and keeps the first occurrence of each;
  \<open>size\<close> is the length of the result, \<open>has\<close> is membership.
\<close>

definition Set_add :: "'a list \<Rightarrow> 'a \<Rightarrow> 'a list" where
  "Set_add s x = (if x \<in> set s then s else s @ [x])"

definition new_Set :: "'a list \<Rightarrow> 'a list" where
  "new_Set xs = foldl Set_add [] xs"

text \<open>
  \<open>correctAnswers.map(correct => correct.toLowerCase().trim())\<close> on the elements of an
  array: an element that is not a string has no \<open>toLowerCase\<close> method, and the call
  throws a TypeError (\<open>None\<close>).
\<close>

fun mapNormalize :: "json list \<Rightarrow> string list option" where
  "mapNormalize [] = Some []"
| "mapNormalize (JString s # cs) =
     (case mapNormalize cs of None \<Rightarrow> None | Some ns \<Rightarrow> Some (normalize s # ns))"
| "mapNormalize (_ # cs) = None"

text \<open>
  \<open>correctAnswers.some(correct => correct.toLowerCase().trim() === normalizedUserAnswer)\<close>:
  \<open>some\<close> stops at the first element that matches, and throws at an element that is
  not a string if no earlier element matched.
\<close>

fun someMatches :: "json list \<Rightarrow> string \<Rightarrow> bool option" where
  "someMatches [] u = Some False"
| "someMatches (JString s # cs) u = (if normalize s = u then Some True else someMatches cs u)"
| "someMatches (_ # cs) u = None"

text \<open>
  The body of the handler between the parse of the stored answers and the response:
  the branch is chosen by \<open>Array.isArray(userAnswer)\<close>. A value that is not an array
  has neither \<open>map\<close> nor \<open>some\<close> as a function, so both branches throw on it.
\<close>

definition verifyAnswer :: "json \<Rightarrow> answer \<Rightarrow> bool option" where
  "verifyAnswer correctAnswers userAnswer =
     (case userAnswer of
        Arr us \<Rightarrow>
          (let userAnswersSet = new_Set (map normalize us)
           in case correctAnswers of
                JArray cs \<Rightarrow>
                  (case mapNormalize cs of
                     None \<Rightarrow> None
                   | Some ns \<Rightarrow>
                       (let correctAnswersSet = new_Set ns
                        in Some (length userAnswersSet = length correctAnswersSet \<and>
                                 list_all (\<lambda>ans. ans \<in> set correctAnswersSet) userAnswersSet)))
              | _ \<Rightarrow> None)
      | Str u \<Rightarrow>
          (let normalizedUserAnswer = normalize u
           in case correctAnswers of
                JArray cs \<Rightarrow> someMatches cs normalizedUserAnswer
              | _ \<Rightarrow> None))"

text \<open>
  \<open>Array.isArray(question.correctAnswers) ? question.correctAnswers :
  JSON.parse(question.correctAnswers)\<close>, with \<open>JSON.parse\<close> an argument: it returns
  \<open>None\<close> when it throws a SyntaxError.
\<close>

definition correctAnswersOf :: "(string \<Rightarrow> json option) \<Rightarrow> question \<Rightarrow> json option" where
  "correctAnswersOf JSON_parse question =
     (case question_correctAnswers question of
        ArrayValue js \<Rightarrow> Some (JArray js)
      | TextValue s \<Rightarrow> JSON_parse s)"

text \<open>
  \<open>log(message, source)\<close> writes the template \<open>`${formattedTime} [${source}] ${message}`\<close>.
  The handler calls \<open>log(`- Correct answers:`, correctAnswers)\<close>, so the stored answers
  are the \<open>source\<close> and the template applies ToString to them. ToString of an array
  joins ToString of its elements (\<open>null\<close> gives the empty string); ToString of an
  object calls its \<open>toString\<close>, then its \<open>valueOf\<close>. An object built by
  \<open>JSON.parse\<close> inherits both from \<open>Object.prototype\<close> unless it has a key of that
  name; the value under such a key is not a function, and the inherited \<open>valueOf\<close>
  returns the object itself. So ToString throws a TypeError exactly on an object with a
  key \<open>toString\<close>, at any depth of arrays. The second call,
  \<open>log(`- User answer:`, userAnswer)\<close>, is on a string or an array of strings and
  never throws.
\<close>

fun ToString_throws :: "json \<Rightarrow> bool" where
  "ToString_throws (JArray js) = list_ex ToString_throws js"
| "ToString_throws (JObject kvs) = (''toString'' \<in> set (map fst kvs))"
| "ToString_throws _ = False"

text \<open>
  The handler. Its inputs are the path segment, the outcome of the zod parse of the body
  (\<open>Inl\<close> carries \<open>error.flatten()\<close>), the query for the question row (\<open>Inl\<close> when
  the query rejects), and \<open>JSON.parse\<close>. Every exception ends in the \<open>catch\<close>
  block: 400 for a ZodError, 500 otherwise.
\<close>

definition verify_handler ::
  "(string \<Rightarrow> json option) \<Rightarrow> (int \<Rightarrow> string + question option) \<Rightarrow>
   string \<Rightarrow> json + answer \<Rightarrow> response" where
  "verify_handler JSON_parse selectQuestion param answerData =
     (case parseInt param of
        None \<Rightarrow> Response 400 (JObject [(''message'', JString ''Invalid question ID'')])
      | Some questionId \<Rightarrow>
          (case answerData of
             Inl flattened \<Rightarrow>
               Response 400 (JObject [(''message'', JString ''Invalid answer data''),
                                      (''error'', flattened)])
           | Inr userAnswer \<Rightarrow>
               (case selectQuestion questionId of
                  Inl e \<Rightarrow> Response 500 (JObject [(''message'', JString ''Failed to verify answer'')])
                | Inr None \<Rightarrow> Response 404 (JObject [(''message'', JString ''Question not found'')])
                | Inr (Some question) \<Rightarrow>
                    (case correctAnswersOf JSON_parse question of
                       None \<Rightarrow>
                         Response 500 (JObject [(''message'', JString ''Failed to verify answer'')])
                     | Some correctAnswers \<Rightarrow>
                         if ToString_throws correctAnswers
                         then Response 500
                                (JObject [(''message'', JString ''Failed to verify answer'')])
                         else
                           (case verifyAnswer correctAnswers userAnswer of
                              None \<Rightarrow>
                                Response 500
                                  (JObject [(''message'', JString ''Failed to verify answer'')])
                            | Some isCorrect \<Rightarrow>
                                Response 200 (JObject [(''isCorrect'', JBool isCorrect)]))))))"

section \<open>Quizzes and their read paths\<close>

text \<open>A row of the \<open>quizzes\<close> table; \<open>created_at\<close> is a TEXT column.\<close>

record quiz =
  quiz_id :: int
  quiz_creatorId :: int
  quiz_creatorName :: string
  quiz_accessCode :: string
  quiz_urlSlug :: string
  quiz_dashboardToken :: string
  quiz_createdAt :: string

definition quiz_json :: "quiz \<Rightarrow> json" where
  "quiz_json q =
     JObject [(''id'', JNumber (quiz_id q)),
              (''creatorId'', JNumber (quiz_creatorId q)),
              (''creatorName'', JString (quiz_creatorName q)),
              (''accessCode'', JString (quiz_accessCode q)),
              (''urlSlug'', JString (quiz_urlSlug q)),
              (''dashboardToken'', JString (quiz_dashboardToken q)),
              (''createdAt'', JString (quiz_createdAt q))]"

text \<open>
  Modelled from the spec: \<open>storage.isQuizExpired\<close> is called by the four read handlers
  and is not among the sources. The spec's Expiry Policy is
  \<open>isExpired(quiz, now) = now > quiz.createdAt + 7 days\<close>. Times are milliseconds since
  the epoch; \<open>getTime\<close> reads the \<open>createdAt\<close> text as one
  (\<open>new Date(text).getTime()\<close>).
\<close>

definition isQuizExpired :: "(string \<Rightarrow> int) \<Rightarrow> int \<Rightarrow> quiz \<Rightarrow> bool" where
  "isQuizExpired getTime now quiz =
     (now > getTime (quiz_createdAt quiz) + 7 * 24 * 60 * 60 * 1000)"

text \<open>The three bodies that the four read handlers share word for word.\<close>

definition quizNotFound :: response where
  "quizNotFound = Response 404 (JObject [(''message'', JString ''Quiz not found'')])"

definition quizExpired :: response where
  "quizExpired =
     Response 410
       (JObject [(''message'', JString ''Quiz expired''),
                 (''expired'', JBool True),
                 (''detail'',
                  JString ''This quiz has expired. Quizzes are available for 7 days after creation.'')])"

definition fetchFailed :: response where
  "fetchFailed = Response 500 (JObject [(''message'', JString ''Failed to fetch quiz'')])"

text \<open>
  The end of each read handler, once a quiz is in hand: the expiry check, then the quiz
  itself with status 200.
\<close>

definition checkExpired :: "(quiz \<Rightarrow> bool) \<Rightarrow> quiz \<Rightarrow> response" where
  "checkExpired isExpired quiz =
     (if isExpired quiz then quizExpired else Response 200 (quiz_json quiz))"

text \<open>
  The handlers take the storage calls they make as arguments: a lookup returns
  \<open>Inl\<close> when its promise rejects, \<open>Inr None\<close> for \<open>undefined\<close>.
\<close>

definition getQuizByAccessCode_handler ::
  "(string \<Rightarrow> string + quiz option) \<Rightarrow> (quiz \<Rightarrow> bool) \<Rightarrow> string \<Rightarrow> response" where
  "getQuizByAccessCode_handler getQuizByAccessCode isExpired accessCode =
     (case getQuizByAccessCode accessCode of
        Inl e \<Rightarrow> fetchFailed
      | Inr None \<Rightarrow> quizNotFound
      | Inr (Some quiz) \<Rightarrow> checkExpired isExpired quiz)"

text \<open>
  By slug: when the exact lookup finds nothing, all quizzes are read and the first one
  whose slug agrees after \<open>toLowerCase\<close> on both sides is taken.
\<close>

definition getQuizByUrlSlug_handler ::
  "(string \<Rightarrow> string + quiz option) \<Rightarrow> (string + quiz list) \<Rightarrow> (quiz \<Rightarrow> bool) \<Rightarrow>
   string \<Rightarrow> response" where
  "getQuizByUrlSlug_handler getQuizByUrlSlug selectAllQuizzes isExpired urlSlug =
     (case getQuizByUrlSlug urlSlug of
        Inl e \<Rightarrow> fetchFailed
      | Inr (Some quiz) \<Rightarrow> checkExpired isExpired quiz
      | Inr None \<Rightarrow>
          (case selectAllQuizzes of
             Inl e \<Rightarrow> fetchFailed
           | Inr allQuizzesList \<Rightarrow>
               (case find (\<lambda>q. toLowerCase (quiz_urlSlug q) = toLowerCase urlSlug)
                       allQuizzesList of
                  None \<Rightarrow> quizNotFound
                | Some slugMatch \<Rightarrow> checkExpired isExpired slugMatch)))"

definition getQuizByDashboardToken_handler ::
  "(string \<Rightarrow> string + quiz option) \<Rightarrow> (quiz \<Rightarrow> bool) \<Rightarrow> string \<Rightarrow> response" where
  "getQuizByDashboardToken_handler getQuizByDashboardToken isExpired dashboardToken =
     (case getQuizByDashboardToken dashboardToken of
        Inl e \<Rightarrow> fetchFailed
      | Inr None \<Rightarrow> quizNotFound
      | Inr (Some quiz) \<Rightarrow> checkExpired isExpired quiz)"

text \<open>By id: the path segment goes through \<open>parseInt\<close>, and \<open>NaN\<close> is answered 400.\<close>

definition getQuizById_handler ::
  "(int \<Rightarrow> string + quiz option) \<Rightarrow> (quiz \<Rightarrow> bool) \<Rightarrow> string \<Rightarrow> response" where
  "getQuizById_handler getQuiz isExpired param =
     (case parseInt param of
        None \<Rightarrow> Response 400 (JObject [(''message'', JString ''Invalid quiz ID'')])
      | Some quizId \<Rightarrow>
          (case getQuiz quizId of
             Inl e \<Rightarrow> fetchFailed
           | Inr None \<Rightarrow> quizNotFound
           | Inr (Some quiz) \<Rightarrow> checkExpired isExpired quiz))"

section \<open>Quiz creation (POST /api/quizzes)\<close>

text \<open>The body after \<open>insertQuizSchema.parse\<close>: the quiz columns without id and createdAt.\<close>

record insert_quiz =
  insert_creatorId :: int
  insert_creatorName :: string
  insert_accessCode :: string
  insert_urlSlug :: string
  insert_dashboardToken :: string

text \<open>
  The handler threads the storage state \<open>'db\<close>: \<open>storage.createQuiz\<close> is the only
  call that can change it, and it returns the new quiz or \<open>Inl\<close> when it rejects. The
  first argument of the handler's input is the outcome of the zod parse (\<open>Inl\<close> carries
  \<open>error.flatten()\<close>). A string is falsy exactly when it is empty.
\<close>

definition createQuiz_handler ::
  "(insert_quiz \<Rightarrow> 'db \<Rightarrow> (string + quiz) \<times> 'db) \<Rightarrow> json + insert_quiz \<Rightarrow> 'db \<Rightarrow>
   response \<times> 'db" where
  "createQuiz_handler createQuiz parsed db =
     (case parsed of
        Inl flattened \<Rightarrow>
          (Response 400 (JObject [(''message'', JString ''Invalid quiz data''),
                                  (''error'', flattened)]), db)
      | Inr quizData \<Rightarrow>
          if insert_creatorName quizData = [] \<or> trim (insert_creatorName quizData) = []
          then (Response 400 (JObject [(''message'', JString ''Creator name cannot be empty''),
                                       (''error'', JString ''EMPTY_CREATOR_NAME'')]), db)
          else if toLowerCase (insert_creatorName quizData) = ''emydan''
          then (Response 400
                  (JObject [(''message'',
                             JString ''Cannot use default creator name. Please enter your own name.''),
                            (''error'', JString ''DEFAULT_CREATOR_NAME_USED'')]), db)
          else (case createQuiz quizData db of
                  (Inl e, db') \<Rightarrow>
                    (Response 500 (JObject [(''message'', JString ''Failed to create quiz'')]), db')
                | (Inr quiz, db') \<Rightarrow> (Response 201 (quiz_json quiz), db')))"

section \<open>The database\<close>

text \<open>A row of the \<open>quiz_attempts\<close> table, and the three tables the code reads and writes.\<close>

record attempt =
  attempt_id :: int
  attempt_quizId :: int
  attempt_userAnswerId :: int
  attempt_userName :: string
  attempt_score :: int
  attempt_totalQuestions :: int
  attempt_answers :: string
  attempt_completedAt :: string

record database =
  quizzes :: "quiz list"
  questions :: "question list"
  quizAttempts :: "attempt list"

section \<open>Recording an attempt (POST /api/quiz-attempts)\<close>

text \<open>
  The body after \<open>insertQuizAttemptSchema.parse\<close>: the attempt columns without id and
  completedAt. The score and the number of questions are fields the client sends.
\<close>

record insert_attempt =
  insert_quizId :: int
  insert_userAnswerId :: int
  insert_userName :: string
  insert_score :: int
  insert_totalQuestions :: int
  insert_answers :: string

definition attempt_json :: "attempt \<Rightarrow> json" where
  "attempt_json a =
     JObject [(''id'', JNumber (attempt_id a)),
              (''quizId'', JNumber (attempt_quizId a)),
              (''userAnswerId'', JNumber (attempt_userAnswerId a)),
              (''userName'', JString (attempt_userName a)),
              (''score'', JNumber (attempt_score a)),
              (''totalQuestions'', JNumber (attempt_totalQuestions a)),
              (''answers'', JString (attempt_answers a)),
              (''completedAt'', JString (attempt_completedAt a))]"

text \<open>
  The handler hands the parsed body to \<open>storage.createQuizAttempt\<close> and answers 201
  with what it returns.
\<close>

definition createQuizAttempt_handler ::
  "(insert_attempt \<Rightarrow> 'db \<Rightarrow> (string + attempt) \<times> 'db) \<Rightarrow> json + insert_attempt \<Rightarrow> 'db \<Rightarrow>
   response \<times> 'db" where
  "createQuizAttempt_handler createQuizAttempt parsed db =
     (case parsed of
        Inl flattened \<Rightarrow>
          (Response 400 (JObject [(''message'', JString ''Invalid attempt data''),
                                  (''error'', flattened)]), db)
      | Inr attemptData \<Rightarrow>
          (case createQuizAttempt attemptData db of
             (Inl e, db') \<Rightarrow>
               (Response 500 (JObject [(''message'', JString ''Failed to create quiz attempt'')]),
                db')
           | (Inr attempt, db') \<Rightarrow> (Response 201 (attempt_json attempt), db')))"

text \<open>One recorded answer, as \<open>questionAnswerSchema\<close> has it.\<close>

record question_answer =
  answer_questionId :: int
  answer_userAnswer :: answer

text \<open>
  Modelled from the spec: the sources have no function that verifies a recorded answer.
  The spec's \<open>recordAttempt\<close> invokes "the Answer Verifier per answer": the question is
  looked up by id, its stored answers are read as in the verify handler, and
  \<open>verifyAnswer\<close> decides. \<open>None\<close> is the verifier's failure on a malformed stored
  answer set; an answer to a question that does not exist is not correct.
\<close>

definition verifyRecorded ::
  "(string \<Rightarrow> json option) \<Rightarrow> question list \<Rightarrow> question_answer \<Rightarrow> bool option" where
  "verifyRecorded JSON_parse qs a =
     (case find (\<lambda>q. question_id q = answer_questionId a) qs of
        None \<Rightarrow> Some False
      | Some question \<Rightarrow>
          (case correctAnswersOf JSON_parse question of
             None \<Rightarrow> None
           | Some correctAnswers \<Rightarrow> verifyAnswer correctAnswers (answer_userAnswer a)))"

text \<open>
  Modelled from the spec: the verifier on each recorded answer in turn; the first failure
  is the failure of the whole.
\<close>

fun verifyAll ::
  "(string \<Rightarrow> json option) \<Rightarrow> question list \<Rightarrow> question_answer list \<Rightarrow> bool list option" where
  "verifyAll JSON_parse qs [] = Some []"
| "verifyAll JSON_parse qs (a # as) =
     (case verifyRecorded JSON_parse qs a of
        None \<Rightarrow> None
      | Some b \<Rightarrow> (case verifyAll JSON_parse qs as of None \<Rightarrow> None | Some bs \<Rightarrow> Some (b # bs)))"

text \<open>
  Modelled from the spec: the id an autoincrement primary key gives the next row of
  \<open>quiz_attempts\<close>.
\<close>

definition nextAttemptId :: "attempt list \<Rightarrow> int" where
  "nextAttemptId as = fold max (map attempt_id as) 0 + 1"

text \<open>
  Modelled from the spec: \<open>storage.createQuizAttempt\<close> is called by the handler and is
  not among the sources. The spec's \<open>recordAttempt(quizId, takerName, answers[])\<close>
  "recomputes score server-side by invoking the Answer Verifier per answer rather than
  trusting a client-submitted score; clamps to [0, questionCount]", and a failure of
  the verifier on malformed stored data is an error of its own, never an incorrect
  answer. \<open>decodeAnswers\<close> reads the text of the answers column as the sequence of
  recorded answers (the spec leaves the serialization open; \<open>None\<close> is a text that
  does not decode), \<open>questionCount\<close> is the number of questions of the quiz, and
  \<open>now\<close> is the completion time.
\<close>

definition createQuizAttempt ::
  "(string \<Rightarrow> json option) \<Rightarrow> (string \<Rightarrow> question_answer list option) \<Rightarrow> string \<Rightarrow>
   insert_attempt \<Rightarrow> database \<Rightarrow> (string + attempt) \<times> database" where
  "createQuizAttempt JSON_parse decodeAnswers now attemptData db =
     (case decodeAnswers (insert_answers attemptData) of
        None \<Rightarrow> (Inl ''ValidationError'', db)
      | Some answers \<Rightarrow>
          (case verifyAll JSON_parse (questions db) answers of
             None \<Rightarrow> (Inl ''DataIntegrityError'', db)
           | Some results \<Rightarrow>
               (let questionCount =
                      int (length (filter (\<lambda>q. question_quizId q = insert_quizId attemptData)
                                     (questions db)));
                    score = max 0 (min questionCount (int (length (filter (\<lambda>b. b) results))));
                    attempt =
                      \<lparr>attempt_id = nextAttemptId (quizAttempts db),
                       attempt_quizId = insert_quizId attemptData,
                       attempt_userAnswerId = insert_userAnswerId attemptData,
                       attempt_userName = insert_userName attemptData,
                       attempt_score = score,
                       attempt_totalQuestions = questionCount,
                       attempt_answers = insert_answers attemptData,
                       attempt_completedAt = now\<rparr>
                in (Inr attempt, db\<lparr>quizAttempts := quizAttempts db @ [attempt]\<rparr>))))"

section \<open>Retention sweep (cleanupExpiredQuizzes)\<close>

text \<open>
  The object a sweep cycle returns; a field the object literal does not have is
  \<open>None\<close>.
\<close>

record cleanup_result =
  success :: bool
  message :: string
  count :: "nat option"
  quizIds :: "int list option"
  error :: "string option"

text \<open>
  What can throw inside the cycle: the select, the image cleanup and the three deletes.
  Each field is \<open>Some\<close> of \<open>String(error)\<close> when that call throws.
\<close>

record sweep_faults =
  select_throws :: "string option"
  cleanupOldQuizImages_throws :: "string option"
  deleteAttempts_throws :: "string option"
  deleteQuestions_throws :: "string option"
  deleteQuizzes_throws :: "string option"

text \<open>
  The calls a cycle makes after the select, in the order it makes them, and the one
  exception it logs and drops.
\<close>

datatype sweep_call =
    CleanupImages "int list"
  | ImageErrorLogged string
  | DeleteAttempts "int list"
  | DeleteQuestions "int list"
  | DeleteQuizzes "int list"

text \<open>The decimal digits of a number, as the template literal of the message writes it.\<close>

function showNat :: "nat \<Rightarrow> string" where
  "showNat n =
     (if n < 10 then [char_of (48 + n)]
      else showNat (n div 10) @ [char_of (48 + n mod 10)])"
  by pat_completeness auto
termination
  by (relation "measure (\<lambda>n. n)") auto

text \<open>
  \<open>getRetentionCutoffDate\<close>: \<open>now.setDate(now.getDate() - 7)\<close> on the current time, in
  milliseconds since the epoch. \<open>setDate\<close> works on the local time of the server: the
  time value becomes a local time, \<open>t + LocalTZA(t, true)\<close>; the day of the month moves
  back by seven, which takes seven times 24 hours from the local time; and the result
  goes back to UTC, \<open>t - LocalTZA(t, false)\<close>. \<open>LocalTZA t isUTC\<close> is the offset of
  the server's time zone in milliseconds, at the instant \<open>t\<close> when \<open>isUTC\<close> and at
  the local time \<open>t\<close> otherwise; it is an argument.
\<close>

definition getRetentionCutoffDate :: "(int \<Rightarrow> bool \<Rightarrow> int) \<Rightarrow> int \<Rightarrow> int" where
  "getRetentionCutoffDate LocalTZA now =
     (let t = now + LocalTZA now True;
          newDate = t - 7 * (24 * 60 * 60 * 1000)
      in newDate - LocalTZA newDate False)"

text \<open>
  \<open>db.select().from(quizzes).where(lt(quizzes.createdAt, cutoffDateString))\<close>: the TEXT
  column \<open>created_at\<close> is compared with the cutoff as text, code unit by code unit. On
  timestamps written in the one format of \<open>toISOString\<close> this order is the order in
  time.
\<close>

definition selectExpiredQuizzes :: "string \<Rightarrow> database \<Rightarrow> quiz list" where
  "selectExpiredQuizzes cutoffDateString db =
     filter (\<lambda>q. quiz_createdAt q < cutoffDateString) (quizzes db)"

text \<open>
  The \<open>try\<close> block from the select on. \<open>inArray(column, ids)\<close> holds for the rows
  whose column is among the ids. A delete that throws changes nothing; an exception of
  the image cleanup is caught on the spot and logged. The result is \<open>Inl\<close> of the
  exception that leaves the block, the database, and the calls that were made.
\<close>

definition cleanup_try ::
  "sweep_faults \<Rightarrow> string \<Rightarrow> database \<Rightarrow> (string + cleanup_result) \<times> database \<times> sweep_call list"
  where
  "cleanup_try faults cutoffDateString db =
     (case select_throws faults of
        Some e \<Rightarrow> (Inl e, db, [])
      | None \<Rightarrow>
          (let expiredQuizzes = selectExpiredQuizzes cutoffDateString db
           in if length expiredQuizzes = 0
              then (Inr \<lparr>success = True,
                         message = ''No expired quizzes found to clean up'',
                         count = Some 0, quizIds = None, error = None\<rparr>, db, [])
              else
                (let expiredQuizIds = map quiz_id expiredQuizzes;
                     calls1 = CleanupImages expiredQuizIds #
                       (case cleanupOldQuizImages_throws faults of
                          Some imageError \<Rightarrow> [ImageErrorLogged imageError]
                        | None \<Rightarrow> [])
                 in case deleteAttempts_throws faults of
                      Some e \<Rightarrow> (Inl e, db, calls1 @ [DeleteAttempts expiredQuizIds])
                    | None \<Rightarrow>
                        (let db1 = db\<lparr>quizAttempts :=
                                        filter (\<lambda>a. attempt_quizId a \<notin> set expiredQuizIds)
                                          (quizAttempts db)\<rparr>;
                             calls2 = calls1 @ [DeleteAttempts expiredQuizIds]
                         in case deleteQuestions_throws faults of
                              Some e \<Rightarrow> (Inl e, db1, calls2 @ [DeleteQuestions expiredQuizIds])
                            | None \<Rightarrow>
                                (let db2 = db1\<lparr>questions :=
                                                 filter (\<lambda>q. question_quizId q \<notin> set expiredQuizIds)
                                                   (questions db1)\<rparr>;
                                     calls3 = calls2 @ [DeleteQuestions expiredQuizIds]
                                 in case deleteQuizzes_throws faults of
                                      Some e \<Rightarrow> (Inl e, db2, calls3 @ [DeleteQuizzes expiredQuizIds])
                                    | None \<Rightarrow>
                                        (let db3 = db2\<lparr>quizzes :=
                                                         filter (\<lambda>q. quiz_id q \<notin> set expiredQuizIds)
                                                           (quizzes db2)\<rparr>
                                         in (Inr \<lparr>success = True,
                                                  message = ''Cleaned up '' @
                                                    showNat (length expiredQuizzes) @
                                                    '' expired quizzes'',
                                                  count = Some (length expiredQuizzes),
                                                  quizIds = Some expiredQuizIds,
                                                  error = None\<rparr>,
                                             db3, calls3 @ [DeleteQuizzes expiredQuizIds])))))))"

text \<open>
  The function: the cutoff is computed from the current time \<open>now\<close> in the time zone
  of the server and written with \<open>Date.prototype.toISOString\<close> (an argument), the rest
  of the \<open>try\<close> block runs, and the \<open>catch\<close> block turns every exception into a
  result.
\<close>

definition cleanupExpiredQuizzes ::
  "sweep_faults \<Rightarrow> (int \<Rightarrow> bool \<Rightarrow> int) \<Rightarrow> (int \<Rightarrow> string) \<Rightarrow> int \<Rightarrow> database \<Rightarrow>
   cleanup_result \<times> database \<times> sweep_call list" where
  "cleanupExpiredQuizzes faults LocalTZA toISOString now db =
     (let cutoffDate = getRetentionCutoffDate LocalTZA now;
          cutoffDateString = toISOString cutoffDate
      in case cleanup_try faults cutoffDateString db of
           (Inl e, db', calls) \<Rightarrow>
             (\<lparr>success = False, message = ''Failed to clean up expired quizzes'',
               count = None, quizIds = None, error = Some e\<rparr>, db', calls)
         | (Inr result, db', calls) \<Rightarrow> (result, db', calls))"

section \<open>Notions used to state the properties\<close>

text \<open>A parsed value that is a list of strings, and a question whose stored answers are one.\<close>

fun isJString :: "json \<Rightarrow> bool" where
  "isJString (JString s) = True"
| "isJString _ = False"

definition isStringArray :: "json \<Rightarrow> bool" where
  "isStringArray j = (case j of JArray js \<Rightarrow> list_all isJString js | _ \<Rightarrow> False)"

definition deserializes :: "(string \<Rightarrow> json option) \<Rightarrow> question \<Rightarrow> bool" where
  "deserializes JSON_parse question =
     (case correctAnswersOf JSON_parse question of None \<Rightarrow> False | Some j \<Rightarrow> isStringArray j)"

text \<open>A field of a response body.\<close>

definition field :: "string \<Rightarrow> json \<Rightarrow> json option" where
  "field k j = (case j of JObject kvs \<Rightarrow> map_of kvs k | _ \<Rightarrow> None)"

text \<open>A numeric string: one decimal digit or more, and nothing else.\<close>

definition isDecimalDigit :: "char \<Rightarrow> bool" where
  "isDecimalDigit c = (48 \<le> (of_char c :: nat) \<and> (of_char c :: nat) \<le> 57)"

definition isNumericString :: "string \<Rightarrow> bool" where
  "isNumericString s = (s \<noteq> [] \<and> list_all isDecimalDigit s)"






text \<open>The cutoff string of a sweep cycle that starts at the time \<open>now\<close>.\<close>

definition cutoffOf :: "(int \<Rightarrow> bool \<Rightarrow> int) \<Rightarrow> (int \<Rightarrow> string) \<Rightarrow> int \<Rightarrow> string" where
  "cutoffOf LocalTZA toISOString now = toISOString (getRetentionCutoffDate LocalTZA now)"

text \<open>The response of the verify handler whenever an exception that is no ZodError is caught.\<close>

definition verifyFailed :: response where
  "verifyFailed = Response 500 (JObject [(''message'', JString ''Failed to verify answer'')])"

definition isCorrectResponse :: "bool \<Rightarrow> response" where
  "isCorrectResponse b = Response 200 (JObject [(''isCorrect'', JBool b)])"

section \<open>Example inputs\<close>

text \<open>The word Stra\<ss>e, with the sharp s U+00DF as its fifth code unit.\<close>

definition example_Strasse :: string where
  "example_Strasse = ''Stra'' @ [CHR 0xDF] @ ''e''"

text \<open>
  \<open>JSON.parse\<close> on the texts the examples store; it is not used on any other
  text.
\<close>

definition example_JSON_parse :: "string \<Rightarrow> json option" where
  "example_JSON_parse s =
     (if s = ''[\"A\",\"B\"]'' then Some (JArray [JString ''A'', JString ''B''])
      else if s = ''[\"Paris\"]'' then Some (JArray [JString ''Paris''])
      else if s = ''[\"paris\",5]'' then Some (JArray [JString ''paris'', JNumber 5])
      else if s = ''[\"paris\",{\"toString\":1}]''
      then Some (JArray [JString ''paris'', JObject [(''toString'', JNumber 1)]])
      else if s = ''[\"'' @ example_Strasse @ ''\"]'' then Some (JArray [JString example_Strasse])
      else None)"

definition example_question :: "string \<Rightarrow> string \<Rightarrow> question" where
  "example_question type correctAnswers =
     \<lparr>question_id = 1, question_quizId = 1, question_text = ''Pick'',
      question_type = type, question_options = ''[\"A\",\"B\",\"C\"]'',
      question_correctAnswers = TextValue correctAnswers, question_hint = None,
      question_order = 0, question_imageUrl = None\<rparr>"

text \<open>A questions table that holds the one question, under id 1.\<close>

definition example_select :: "question \<Rightarrow> int \<Rightarrow> string + question option" where
  "example_select q i = (if i = question_id q then Inr (Some q) else Inr None)"

text \<open>A quiz, a quizzes table that holds that one quiz, and the clock of the examples.\<close>

definition example_quiz :: "int \<Rightarrow> string \<Rightarrow> quiz" where
  "example_quiz i createdAt =
     \<lparr>quiz_id = i, quiz_creatorId = 1, quiz_creatorName = ''Ada'',
      quiz_accessCode = ''ABC123'', quiz_urlSlug = ''ada-x7'',
      quiz_dashboardToken = ''tok-9f2c'', quiz_createdAt = createdAt\<rparr>"

definition example_getQuiz :: "quiz \<Rightarrow> int \<Rightarrow> string + quiz option" where
  "example_getQuiz q i = (if i = quiz_id q then Inr (Some q) else Inr None)"

definition example_getQuizBy :: "(quiz \<Rightarrow> string) \<Rightarrow> quiz \<Rightarrow> string \<Rightarrow> string + quiz option" where
  "example_getQuizBy column q k = (if k = column q then Inr (Some q) else Inr None)"

text \<open>
  \<open>new Date(text).getTime()\<close> on the creation time of the examples, midnight of
  1 January 2024 (UTC).
\<close>

definition example_getTime :: "string \<Rightarrow> int" where
  "example_getTime s = (if s = ''2024-01-01T00:00:00.000Z'' then 1704067200000 else 0)"

text \<open>
  A \<open>storage.createQuiz\<close> for the examples: the state is the list of quizzes, and the
  new quiz is appended with the next id and a fixed creation time.
\<close>

definition example_createQuiz :: "insert_quiz \<Rightarrow> quiz list \<Rightarrow> (string + quiz) \<times> quiz list" where
  "example_createQuiz d qs =
     (let q = \<lparr>quiz_id = int (length qs) + 1, quiz_creatorId = insert_creatorId d,
               quiz_creatorName = insert_creatorName d, quiz_accessCode = insert_accessCode d,
               quiz_urlSlug = insert_urlSlug d, quiz_dashboardToken = insert_dashboardToken d,
               quiz_createdAt = ''2024-01-01T00:00:00.000Z''\<rparr>
      in (Inr q, qs @ [q]))"

definition example_insert_quiz :: "string \<Rightarrow> insert_quiz" where
  "example_insert_quiz name =
     \<lparr>insert_creatorId = 1, insert_creatorName = name, insert_accessCode = ''ABC123'',
      insert_urlSlug = ''ada-x7'', insert_dashboardToken = ''tok-9f2c''\<rparr>"

text \<open>
  A database for a sweep at midnight of 8 January 2024 (UTC), whose cutoff is midnight
  of 1 January: quiz 1 was created eight days before the sweep and quiz 2 six days before;
  each has one question and one attempt.
\<close>

definition example_attempt :: "int \<Rightarrow> int \<Rightarrow> attempt" where
  "example_attempt i quizId =
     \<lparr>attempt_id = i, attempt_quizId = quizId, attempt_userAnswerId = 0,
      attempt_userName = ''Bob'', attempt_score = 1, attempt_totalQuestions = 1,
      attempt_answers = ''[]'', attempt_completedAt = ''2024-01-03T00:00:00.000Z''\<rparr>"

definition example_db :: database where
  "example_db =
     \<lparr>quizzes = [example_quiz 1 ''2023-12-31T00:00:00.000Z'',
                 (example_quiz 2 ''2024-01-02T00:00:00.000Z'')
                   \<lparr>quiz_accessCode := ''DEF456'', quiz_urlSlug := ''bob-k2'',
                    quiz_dashboardToken := ''tok-77aa''\<rparr>],
      questions = [example_question ''multiple_choice'' ''[\"A\",\"B\"]'',
                   (example_question ''multiple_choice'' ''[\"Paris\"]'')
                     \<lparr>question_id := 2, question_quizId := 2\<rparr>],
      quizAttempts = [example_attempt 1 1, example_attempt 2 2]\<rparr>"

definition example_cutoff :: string where
  "example_cutoff = ''2024-01-01T00:00:00.000Z''"

text \<open>
  \<open>toISOString\<close> on the cutoffs of two sweeps, at midnight of 8 January 2024 and of
  8 January 2023 (UTC), and on the two creation times of the example, midnight of
  31 December 2023 and of 2 January 2024; it is not used on any other time.
\<close>

definition example_toISOString :: "int \<Rightarrow> string" where
  "example_toISOString t =
     (if t = 1704067200000 then example_cutoff
      else if t = 1672531200000 then ''2023-01-01T00:00:00.000Z''
      else if t = 1703980800000 then ''2023-12-31T00:00:00.000Z''
      else if t = 1704153600000 then ''2024-01-02T00:00:00.000Z''
      else [])"



text \<open>
  Two time zones. In UTC the offset is zero. In New York, between November 2023 and
  November 2024, the offset is five hours behind UTC until 10 March 2024, 07:00 UTC
  (1710054000000), and four hours behind from then on; a local time is in daylight-saving
  time from 03:00 of that day on (1710039600000 as a local time value), and the local
  hour before it, which the clocks skip, takes the offset before the change.
\<close>

definition LocalTZA_UTC :: "int \<Rightarrow> bool \<Rightarrow> int" where
  "LocalTZA_UTC t isUTC = 0"


definition sweep_2024 :: int where
  "sweep_2024 = 1704672000000"

definition sweep_2023 :: int where
  "sweep_2023 = 1673136000000"

definition no_faults :: sweep_faults where
  "no_faults =
     \<lparr>select_throws = None, cleanupOldQuizImages_throws = None, deleteAttempts_throws = None,
      deleteQuestions_throws = None, deleteQuizzes_throws = None\<rparr>"

text \<open>
  A quiz with five questions, each with the correct answers A and B, and an attempt on it
  with two recorded answers whose body claims the score given as argument.
\<close>

definition example_db5 :: database where
  "example_db5 =
     \<lparr>quizzes = [example_quiz 1 ''2024-01-01T00:00:00.000Z''],
      questions = map (\<lambda>i. (example_question ''multiple_choice'' ''[\"A\",\"B\"]'')
                              \<lparr>question_id := i\<rparr>) [1, 2, 3, 4, 5],
      quizAttempts = []\<rparr>"

definition example_answers :: string where
  "example_answers =
     ''[{\"questionId\":1,\"userAnswer\":\"A\"},{\"questionId\":2,\"userAnswer\":[\"A\"]}]''"

definition example_decodeAnswers :: "string \<Rightarrow> question_answer list option" where
  "example_decodeAnswers s =
     (if s = example_answers
      then Some [\<lparr>answer_questionId = 1, answer_userAnswer = Str ''A''\<rparr>,
                 \<lparr>answer_questionId = 2, answer_userAnswer = Arr [''A'']\<rparr>]
      else None)"

definition example_insert_attempt :: "int \<Rightarrow> insert_attempt" where
  "example_insert_attempt score =
     \<lparr>insert_quizId = 1, insert_userAnswerId = 0, insert_userName = ''Bob'',
      insert_score = score, insert_totalQuestions = 5, insert_answers = example_answers\<rparr>"

text \<open>The attempt that is stored for the example: one of the two answers is correct.\<close>

definition example_stored :: attempt where
  "example_stored =
     \<lparr>attempt_id = 1, attempt_quizId = 1, attempt_userAnswerId = 0, attempt_userName = ''Bob'',
      attempt_score = 1, attempt_totalQuestions = 5, attempt_answers = example_answers,
      attempt_completedAt = ''2024-01-03T00:00:00.000Z''\<rparr>"

section \<open>Facts about strings\<close>

lemmas string_eval =
  normalize_def trim_def trimStart_def toLowerCase_def toLowerCaseChar_def isWhiteSpace_def
  char_of_def bit_0

lemma isWhiteSpace_toLowerCaseChar: "isWhiteSpace (toLowerCaseChar c) = isWhiteSpace c"
  by (auto simp: isWhiteSpace_def toLowerCaseChar_def Let_def)





lemma trim_whitespace: "list_all isWhiteSpace s \<Longrightarrow> trim s = []"
proof -
  assume "list_all isWhiteSpace s"
  then have "dropWhile isWhiteSpace s = []"
    by (simp add: list_all_iff dropWhile_eq_Nil_conv)
  then show ?thesis by (metis dropWhile.simps(1) rev.simps(1) trim_def)
qed













section \<open>Facts about sets and the verifier\<close>

lemma foldl_Set_add_set: "set (foldl Set_add acc xs) = set acc \<union> set xs"
  by (induction xs arbitrary: acc) (auto simp: Set_add_def)

lemma foldl_Set_add_distinct: "distinct acc \<Longrightarrow> distinct (foldl Set_add acc xs)"
  by (induction xs arbitrary: acc) (auto simp: Set_add_def)

lemma set_new_Set: "set (new_Set xs) = set xs"
  by (simp add: new_Set_def foldl_Set_add_set)

lemma distinct_new_Set: "distinct (new_Set xs)"
  by (simp add: new_Set_def foldl_Set_add_distinct)

lemma length_new_Set: "length (new_Set xs) = card (set xs)"
  using distinct_card [OF distinct_new_Set, of xs] by (simp add: set_new_Set)

lemma Set_equal_iff:
  "(length (new_Set xs) = length (new_Set ys) \<and>
    list_all (\<lambda>a. a \<in> set (new_Set ys)) (new_Set xs)) \<longleftrightarrow> set xs = set ys"
proof -
  have "card (set xs) = card (set ys) \<and> set xs \<subseteq> set ys \<longleftrightarrow> set xs = set ys"
    using card_subset_eq [OF finite_set, of "set xs" ys] by auto
  then show ?thesis
    by (simp add: length_new_Set set_new_Set list_all_iff subset_eq)
qed

lemma mapNormalize_strings: "mapNormalize (map JString cs) = Some (map normalize cs)"
  by (induction cs) auto

lemma someMatches_strings: "someMatches (map JString cs) u = Some (u \<in> normalize ` set cs)"
  by (induction cs) auto

lemma verifyAnswer_Arr:
  "verifyAnswer (JArray (map JString cs)) (Arr us) = Some (normalize ` set us = normalize ` set cs)"
  by (simp add: verifyAnswer_def mapNormalize_strings Set_equal_iff)

lemma verifyAnswer_Str:
  "verifyAnswer (JArray (map JString cs)) (Str u) = Some (normalize u \<in> normalize ` set cs)"
  by (simp add: verifyAnswer_def someMatches_strings)

lemma verify_handler_found:
  assumes "parseInt param = Some questionId"
    and "selectQuestion questionId = Inr (Some question)"
  shows "verify_handler JSON_parse selectQuestion param (Inr userAnswer) =
     (case correctAnswersOf JSON_parse question of
        None \<Rightarrow> verifyFailed
      | Some correctAnswers \<Rightarrow>
          if ToString_throws correctAnswers then verifyFailed
          else (case verifyAnswer correctAnswers userAnswer of
                  None \<Rightarrow> verifyFailed
                | Some isCorrect \<Rightarrow> isCorrectResponse isCorrect))"
  using assms
  by (simp add: verify_handler_def verifyFailed_def isCorrectResponse_def split: option.splits)

lemma ToString_strings [simp]: "\<not> list_ex ToString_throws (map JString cs)"
  by (simp add: list_ex_iff)


lemma parseInt_1: "parseInt ''1'' = Some 1"
  by (simp add: parseInt_def trimStart_def isWhiteSpace_def isRadixDigit_def digitValue_def
      mathInt_def)

lemma normalize_examples:
  "normalize ''A'' = ''a''" "normalize ''B'' = ''b''" "normalize ''C'' = ''c''"
  "normalize '' b'' = ''b''" "normalize ''a '' = ''a''"
  by (simp_all add: string_eval)

lemma example_select_1:
  "example_select (example_question t c) 1 = Inr (Some (example_question t c))"
  by (simp add: example_select_def example_question_def)

lemma example_correctAnswers_AB:
  "correctAnswersOf example_JSON_parse (example_question t ''[\"A\",\"B\"]'') =
     Some (JArray (map JString [''A'', ''B'']))"
  by (simp add: correctAnswersOf_def example_question_def example_JSON_parse_def)

text \<open>
  C2. In multi-answer mode (the candidate is an array) on a question whose stored answers
  are a list of strings, the handler answers \<open>isCorrect\<close> exactly when the set of
  normalized candidates equals the set of normalized correct answers. With correct
  answers A and B: the candidate A alone is wrong, A, B and C together are wrong, and
  B, A is right.
\<close>

theorem multi_answer_exact_set_match:
  assumes "parseInt param = Some questionId"
    and "selectQuestion questionId = Inr (Some question)"
    and "correctAnswersOf JSON_parse question = Some (JArray (map JString cs))"
  shows "verify_handler JSON_parse selectQuestion param (Inr (Arr us)) =
           isCorrectResponse (normalize ` set us = normalize ` set cs)
         \<and> verifyAnswer (JArray [JString ''A'', JString ''B'']) (Arr [''A'']) = Some False
         \<and> verifyAnswer (JArray [JString ''A'', JString ''B'']) (Arr [''A'', ''B'', ''C''])
             = Some False
         \<and> verifyAnswer (JArray [JString ''A'', JString ''B'']) (Arr [''B'', ''A''])
             = Some True"
proof -
  have "verify_handler JSON_parse selectQuestion param (Inr (Arr us)) =
           isCorrectResponse (normalize ` set us = normalize ` set cs)"
    using assms verify_handler_found [where param = param and questionId = questionId
        and selectQuestion = selectQuestion and question = question
        and JSON_parse = JSON_parse and userAnswer = "Arr us"]
    by (simp add: verifyAnswer_Arr)
  moreover have "verifyAnswer (JArray [JString ''A'', JString ''B'']) (Arr [''A'']) = Some False"
    by (simp add: verifyAnswer_def new_Set_def Set_add_def normalize_examples)
  moreover have "verifyAnswer (JArray [JString ''A'', JString ''B'']) (Arr [''A'', ''B'', ''C''])
      = Some False"
    by (simp add: verifyAnswer_def new_Set_def Set_add_def normalize_examples)
  moreover have "verifyAnswer (JArray [JString ''A'', JString ''B'']) (Arr [''B'', ''A''])
      = Some True"
    by (simp add: verifyAnswer_def new_Set_def Set_add_def normalize_examples)
  ultimately show ?thesis by blast
qed

theorem multi_answer_exact_set_match_witness:
  "parseInt ''1'' = Some 1
   \<and> example_select (example_question ''select_all'' ''[\"A\",\"B\"]'') 1 =
       Inr (Some (example_question ''select_all'' ''[\"A\",\"B\"]''))
   \<and> correctAnswersOf example_JSON_parse (example_question ''select_all'' ''[\"A\",\"B\"]'') =
       Some (JArray (map JString [''A'', ''B'']))
   \<and> verify_handler example_JSON_parse
        (example_select (example_question ''select_all'' ''[\"A\",\"B\"]'')) ''1''
        (Inr (Arr ['' b'', ''A'', ''a ''])) = isCorrectResponse True"
proof -
  note h1 = parseInt_1
  note h2 = example_select_1 [of "''select_all''" "''[\"A\",\"B\"]''"]
  note h3 = example_correctAnswers_AB [of "''select_all''"]
  have e: "(normalize ` set ['' b'', ''A'', ''a ''] = normalize ` set [''A'', ''B'']) = True"
    by (simp add: normalize_examples insert_commute)
  have "verify_handler example_JSON_parse
        (example_select (example_question ''select_all'' ''[\"A\",\"B\"]'')) ''1''
        (Inr (Arr ['' b'', ''A'', ''a ''])) =
        isCorrectResponse (normalize ` set ['' b'', ''A'', ''a ''] = normalize ` set [''A'', ''B''])"
    using h1 h2 h3 multi_answer_exact_set_match [where param = "''1''" and questionId = 1
        and selectQuestion = "example_select (example_question ''select_all'' ''[\"A\",\"B\"]'')"
        and question = "example_question ''select_all'' ''[\"A\",\"B\"]''"
        and JSON_parse = example_JSON_parse and cs = "[''A'', ''B'']"
        and us = "['' b'', ''A'', ''a '']"]
    by blast
  then show ?thesis using h1 h2 h3 unfolding e by blast
qed

lemma normalize_Paris:
  "normalize ''Paris'' = ''paris''" "normalize ''Paris '' = ''paris''"
  "normalize ''paris'' = ''paris''"
  by (simp_all add: string_eval)


lemma example_correctAnswers_mixed:
  "correctAnswersOf example_JSON_parse (example_question t ''[\"paris\",5]'') =
     Some (JArray [JString ''paris'', JNumber 5])"
  by (simp add: correctAnswersOf_def example_question_def example_JSON_parse_def)

lemma example_correctAnswers_toString:
  "correctAnswersOf example_JSON_parse (example_question t ''[\"paris\",{\"toString\":1}]'') =
     Some (JArray [JString ''paris'', JObject [(''toString'', JNumber 1)]])"
  by (simp add: correctAnswersOf_def example_question_def example_JSON_parse_def)

lemma isJString_iff: "list_all isJString js \<longleftrightarrow> (\<exists>cs. js = map JString cs)"
proof
  show "list_all isJString js \<Longrightarrow> \<exists>cs. js = map JString cs"
  proof (induction js)
    case Nil
    then show ?case by simp
  next
    case (Cons j js)
    then obtain cs where cs: "js = map JString cs" by auto
    from Cons.prems obtain s where "j = JString s" by (cases j) auto
    with cs have "j # js = map JString (s # cs)" by simp
    then show ?case by (rule exI)
  qed
next
  show "\<exists>cs. js = map JString cs \<Longrightarrow> list_all isJString js"
    by (auto simp: list_all_iff)
qed

lemma mapNormalize_Some: "mapNormalize js = Some ns \<Longrightarrow> list_all isJString js"
  by (induction js arbitrary: ns rule: mapNormalize.induct) (auto split: option.splits)

lemma someMatches_False: "someMatches js u = Some False \<Longrightarrow> list_all isJString js"
  by (induction js u rule: someMatches.induct) (auto split: if_splits)

lemma someMatches_True_iff:
  "someMatches js u = Some True \<longleftrightarrow>
     (\<exists>pre s post. js = map JString pre @ JString s # post \<and> normalize s = u)"
proof (induction js)
  case Nil
  then show ?case by simp
next
  case (Cons j js)
  show ?case
  proof (cases "isJString j")
    case False
    then have "someMatches (j # js) u = None" by (cases j) simp_all
    moreover have "\<And>pre s post. j # js \<noteq> map JString pre @ JString s # post"
      using False by (case_tac pre) auto
    ultimately show ?thesis by simp
  next
    case True
    then obtain s where j: "j = JString s" by (cases j) auto
    show ?thesis
    proof (cases "normalize s = u")
      case True
      then have "JString s # js = map JString [] @ JString s # js \<and> normalize s = u" by simp
      then have "\<exists>pre s' post. JString s # js = map JString pre @ JString s' # post \<and>
                   normalize s' = u"
        by blast
      with True j show ?thesis by simp
    next
      case False
      have "(\<exists>pre s' post. JString s # js = map JString pre @ JString s' # post \<and>
               normalize s' = u)
         \<longleftrightarrow> (\<exists>pre s' post. js = map JString pre @ JString s' # post \<and> normalize s' = u)"
      proof
        assume "\<exists>pre s' post. JString s # js = map JString pre @ JString s' # post \<and>
                  normalize s' = u"
        then obtain pre s' post where
          e: "JString s # js = map JString pre @ JString s' # post" and n: "normalize s' = u"
          by blast
        show "\<exists>pre s' post. js = map JString pre @ JString s' # post \<and> normalize s' = u"
        proof (cases pre)
          case Nil
          with e n False show ?thesis by simp
        next
          case (Cons p pre')
          with e have "js = map JString pre' @ JString s' # post" by simp
          with n show ?thesis by blast
        qed
      next
        assume "\<exists>pre s' post. js = map JString pre @ JString s' # post \<and> normalize s' = u"
        then obtain pre s' post where
          e: "js = map JString pre @ JString s' # post" and n: "normalize s' = u"
          by blast
        then have "JString s # js = map JString (s # pre) @ JString s' # post" by simp
        with n show "\<exists>pre s' post. JString s # js = map JString pre @ JString s' # post \<and>
                       normalize s' = u"
          by blast
      qed
      with False j Cons.IH show ?thesis by simp
    qed
  qed
qed

lemma verifyAnswer_Arr_Some: "verifyAnswer j (Arr us) = Some b \<Longrightarrow> isStringArray j"
  by (auto simp: verifyAnswer_def isStringArray_def Let_def dest: mapNormalize_Some
      split: json.splits option.splits)

lemma verifyAnswer_False: "verifyAnswer j a = Some False \<Longrightarrow> isStringArray j"
  by (cases a)
     (auto simp: verifyAnswer_def isStringArray_def Let_def
       dest: mapNormalize_Some someMatches_False split: json.splits option.splits)

lemma verifyAnswer_not_array: "\<forall>cs. j \<noteq> JArray cs \<Longrightarrow> verifyAnswer j a = None"
  by (cases a; cases j) (auto simp: verifyAnswer_def Let_def)







lemma correctAnswersOf_type:
  "correctAnswersOf JSON_parse (question\<lparr>question_type := t\<rparr>) =
   correctAnswersOf JSON_parse question"
  by (simp add: correctAnswersOf_def)

text \<open>
  C10. The verify handler chooses the comparison from the shape of the submitted answer
  alone. Changing the \<open>type\<close> field of the stored question changes no response; on
  stored answers that are a list of strings, an array candidate is judged by equality of
  the normalized sets and a string candidate by a match with any stored answer. On a
  \<open>multiple_choice\<close> question with correct answers A and B, the array candidate [A] is
  wrong although the string candidate A is right.
\<close>

theorem mode_chosen_by_answer_shape:
  assumes "parseInt param = Some questionId"
    and "selectQuestion questionId = Inr (Some question)"
    and "selectQuestion' questionId = Inr (Some (question\<lparr>question_type := t\<rparr>))"
  shows "verify_handler JSON_parse selectQuestion' param answerData =
           verify_handler JSON_parse selectQuestion param answerData
         \<and> (\<forall>cs us. correctAnswersOf JSON_parse question = Some (JArray (map JString cs)) \<longrightarrow>
               verify_handler JSON_parse selectQuestion' param (Inr (Arr us)) =
               isCorrectResponse (normalize ` set us = normalize ` set cs))
         \<and> (\<forall>cs u. correctAnswersOf JSON_parse question = Some (JArray (map JString cs)) \<longrightarrow>
               verify_handler JSON_parse selectQuestion' param (Inr (Str u)) =
               isCorrectResponse (normalize u \<in> normalize ` set cs))
         \<and> verify_handler example_JSON_parse
              (example_select (example_question ''multiple_choice'' ''[\"A\",\"B\"]'')) ''1''
              (Inr (Arr [''A''])) = isCorrectResponse False
         \<and> verify_handler example_JSON_parse
              (example_select (example_question ''multiple_choice'' ''[\"A\",\"B\"]'')) ''1''
              (Inr (Str ''A'')) = isCorrectResponse True"
proof -
  have same: "verify_handler JSON_parse selectQuestion' param answerData =
           verify_handler JSON_parse selectQuestion param answerData"
    using assms by (cases answerData) (simp_all add: verify_handler_def correctAnswersOf_type)
  have found': "verify_handler JSON_parse selectQuestion' param (Inr a) =
     (case correctAnswersOf JSON_parse question of
        None \<Rightarrow> verifyFailed
      | Some correctAnswers \<Rightarrow>
          if ToString_throws correctAnswers then verifyFailed
          else (case verifyAnswer correctAnswers a of
                  None \<Rightarrow> verifyFailed
                | Some isCorrect \<Rightarrow> isCorrectResponse isCorrect))" for a
    using assms(1,3) verify_handler_found [where param = param and questionId = questionId
        and selectQuestion = selectQuestion' and question = "question\<lparr>question_type := t\<rparr>"
        and JSON_parse = JSON_parse and userAnswer = a]
    by (simp add: correctAnswersOf_type)
  have arr: "verify_handler JSON_parse selectQuestion' param (Inr (Arr us)) =
               isCorrectResponse (normalize ` set us = normalize ` set cs)"
    if "correctAnswersOf JSON_parse question = Some (JArray (map JString cs))" for cs us
    using that by (simp add: found' verifyAnswer_Arr)
  have str: "verify_handler JSON_parse selectQuestion' param (Inr (Str u)) =
               isCorrectResponse (normalize u \<in> normalize ` set cs)"
    if "correctAnswersOf JSON_parse question = Some (JArray (map JString cs))" for cs u
    using that by (simp add: found' verifyAnswer_Str)
  have exfound: "verify_handler example_JSON_parse
        (example_select (example_question ''multiple_choice'' ''[\"A\",\"B\"]'')) ''1'' (Inr a) =
     (case verifyAnswer (JArray [JString ''A'', JString ''B'']) a of
             None \<Rightarrow> verifyFailed
           | Some isCorrect \<Rightarrow> isCorrectResponse isCorrect)" for a
    using verify_handler_found [where param = "''1''" and questionId = 1
        and selectQuestion = "example_select (example_question ''multiple_choice'' ''[\"A\",\"B\"]'')"
        and question = "example_question ''multiple_choice'' ''[\"A\",\"B\"]''"
        and JSON_parse = example_JSON_parse and userAnswer = a]
      parseInt_1 example_select_1 [of "''multiple_choice''" "''[\"A\",\"B\"]''"]
      example_correctAnswers_AB [of "''multiple_choice''"]
    by simp
  have ex1: "verify_handler example_JSON_parse
              (example_select (example_question ''multiple_choice'' ''[\"A\",\"B\"]'')) ''1''
              (Inr (Arr [''A''])) = isCorrectResponse False"
    by (simp add: exfound verifyAnswer_def new_Set_def Set_add_def normalize_examples)
  have ex2: "verify_handler example_JSON_parse
              (example_select (example_question ''multiple_choice'' ''[\"A\",\"B\"]'')) ''1''
              (Inr (Str ''A'')) = isCorrectResponse True"
    by (simp add: exfound verifyAnswer_def normalize_examples)
  from same arr str ex1 ex2 show ?thesis by blast
qed

theorem mode_chosen_by_answer_shape_witness:
  "parseInt ''1'' = Some 1
   \<and> example_select (example_question ''multiple_choice'' ''[\"A\",\"B\"]'') 1 =
       Inr (Some (example_question ''multiple_choice'' ''[\"A\",\"B\"]''))
   \<and> example_select (example_question ''select_all'' ''[\"A\",\"B\"]'') 1 =
       Inr (Some ((example_question ''multiple_choice'' ''[\"A\",\"B\"]'')
                    \<lparr>question_type := ''select_all''\<rparr>))
   \<and> verify_handler example_JSON_parse
         (example_select (example_question ''select_all'' ''[\"A\",\"B\"]'')) ''1''
         (Inr (Arr [''A''])) =
       verify_handler example_JSON_parse
         (example_select (example_question ''multiple_choice'' ''[\"A\",\"B\"]'')) ''1''
         (Inr (Arr [''A'']))"
proof -
  note h1 = parseInt_1
  note h2 = example_select_1 [of "''multiple_choice''" "''[\"A\",\"B\"]''"]
  have h3: "example_select (example_question ''select_all'' ''[\"A\",\"B\"]'') 1 =
       Inr (Some ((example_question ''multiple_choice'' ''[\"A\",\"B\"]'')
                    \<lparr>question_type := ''select_all''\<rparr>))"
    by (simp add: example_select_def example_question_def)
  show ?thesis
    using h1 h2 h3 mode_chosen_by_answer_shape [where param = "''1''" and questionId = 1
        and selectQuestion = "example_select (example_question ''multiple_choice'' ''[\"A\",\"B\"]'')"
        and selectQuestion' = "example_select (example_question ''select_all'' ''[\"A\",\"B\"]'')"
        and question = "example_question ''multiple_choice'' ''[\"A\",\"B\"]''"
        and t = "''select_all''"
        and JSON_parse = example_JSON_parse and answerData = "Inr (Arr [''A''])"]
    by blast
qed

text \<open>
  C6, as the code has it. When the stored correct answers of the question do not
  deserialize as a list of strings, the verify handler never answers
  \<open>isCorrect: false\<close>. It answers the 500 failure whenever the stored text does not
  parse, whenever the parsed value is not an array, whenever writing the stored answers to
  the log throws, and always in multi-answer mode. In single-answer mode on a stored array
  it answers \<open>isCorrect: true\<close> exactly when the log line can be written and a string
  entry that matches the candidate comes before every entry that is not a string, and the
  500 failure otherwise. With the stored text \<open>["paris",{"toString":1}]\<close> the candidate
  Paris gets the 500 failure, although its first entry matches.
\<close>

theorem malformed_answers_never_incorrect:
  assumes "parseInt param = Some questionId"
    and "selectQuestion questionId = Inr (Some question)"
    and "\<not> deserializes JSON_parse question"
  shows "verify_handler JSON_parse selectQuestion param (Inr userAnswer) \<noteq> isCorrectResponse False
         \<and> (verify_handler JSON_parse selectQuestion param (Inr userAnswer) = verifyFailed \<or>
            verify_handler JSON_parse selectQuestion param (Inr userAnswer) = isCorrectResponse True)
         \<and> (\<forall>us. verify_handler JSON_parse selectQuestion param (Inr (Arr us)) = verifyFailed)
         \<and> (correctAnswersOf JSON_parse question = None \<longrightarrow>
              verify_handler JSON_parse selectQuestion param (Inr userAnswer) = verifyFailed)
         \<and> (\<forall>j. correctAnswersOf JSON_parse question = Some j \<and> (\<forall>cs. j \<noteq> JArray cs) \<longrightarrow>
              verify_handler JSON_parse selectQuestion param (Inr userAnswer) = verifyFailed)
         \<and> (\<forall>j. correctAnswersOf JSON_parse question = Some j \<and> ToString_throws j \<longrightarrow>
              verify_handler JSON_parse selectQuestion param (Inr userAnswer) = verifyFailed)
         \<and> (\<forall>cs u. correctAnswersOf JSON_parse question = Some (JArray cs) \<longrightarrow>
              verify_handler JSON_parse selectQuestion param (Inr (Str u)) =
                (if \<not> ToString_throws (JArray cs) \<and>
                    (\<exists>pre s post. cs = map JString pre @ JString s # post \<and>
                                   normalize s = normalize u)
                 then isCorrectResponse True else verifyFailed))
         \<and> verify_handler example_JSON_parse
              (example_select (example_question ''multiple_choice''
                                 ''[\"paris\",{\"toString\":1}]'')) ''1''
              (Inr (Str ''Paris'')) = verifyFailed
         \<and> verifyFailed = Response 500 (JObject [(''message'', JString ''Failed to verify answer'')])"
proof -
  have found: "verify_handler JSON_parse selectQuestion param (Inr a) =
     (case correctAnswersOf JSON_parse question of
        None \<Rightarrow> verifyFailed
      | Some correctAnswers \<Rightarrow>
          if ToString_throws correctAnswers then verifyFailed
          else (case verifyAnswer correctAnswers a of
                  None \<Rightarrow> verifyFailed
                | Some isCorrect \<Rightarrow> isCorrectResponse isCorrect))" for a
    using assms(1,2) verify_handler_found [where param = param and questionId = questionId
        and selectQuestion = selectQuestion and question = question
        and JSON_parse = JSON_parse and userAnswer = a]
    by simp
  have nf: "verifyAnswer j a \<noteq> Some False" if "correctAnswersOf JSON_parse question = Some j" for j a
    using that assms(3) verifyAnswer_False [of j a] by (auto simp: deserializes_def)
  have na: "verifyAnswer j (Arr us) = None" if "correctAnswersOf JSON_parse question = Some j" for j us
    using that assms(3) verifyAnswer_Arr_Some [of j us] by (cases "verifyAnswer j (Arr us)") (auto simp: deserializes_def)
  have c2: "verify_handler JSON_parse selectQuestion param (Inr userAnswer) = verifyFailed \<or>
            verify_handler JSON_parse selectQuestion param (Inr userAnswer) = isCorrectResponse True"
  proof (cases "correctAnswersOf JSON_parse question")
    case None
    then show ?thesis by (simp add: found)
  next
    case (Some j)
    show ?thesis
    proof (cases "verifyAnswer j userAnswer")
      case None
      with Some show ?thesis by (simp add: found)
    next
      case b: (Some b)
      with nf [OF Some, of userAnswer] have "b = True" by (cases b) auto
      with Some b show ?thesis by (simp add: found)
    qed
  qed
  have c1: "verify_handler JSON_parse selectQuestion param (Inr userAnswer) \<noteq> isCorrectResponse False"
    using c2 by (auto simp: verifyFailed_def isCorrectResponse_def)
  have c3: "verify_handler JSON_parse selectQuestion param (Inr (Arr us)) = verifyFailed" for us
    using na by (auto simp: found split: option.splits)
  have c4: "correctAnswersOf JSON_parse question = None \<Longrightarrow>
              verify_handler JSON_parse selectQuestion param (Inr userAnswer) = verifyFailed"
    by (simp add: found)
  have c5: "verify_handler JSON_parse selectQuestion param (Inr userAnswer) = verifyFailed"
    if "correctAnswersOf JSON_parse question = Some j" "\<forall>cs. j \<noteq> JArray cs" for j
    using that verifyAnswer_not_array [of j userAnswer] by (simp add: found)
  have c5': "verify_handler JSON_parse selectQuestion param (Inr userAnswer) = verifyFailed"
    if "correctAnswersOf JSON_parse question = Some j" "ToString_throws j" for j
    using that by (simp add: found)
  have c6: "verify_handler JSON_parse selectQuestion param (Inr (Str u)) =
                (if \<not> ToString_throws (JArray cs) \<and>
                    (\<exists>pre s post. cs = map JString pre @ JString s # post \<and>
                                   normalize s = normalize u)
                 then isCorrectResponse True else verifyFailed)"
    if cs: "correctAnswersOf JSON_parse question = Some (JArray cs)" for cs u
  proof (cases "ToString_throws (JArray cs)")
    case True
    then have "verify_handler JSON_parse selectQuestion param (Inr (Str u)) = verifyFailed"
      using cs by (simp add: found)
    with True show ?thesis by (simp only: not_True_eq_False simp_thms if_False)
  next
    case nt: False
    have v: "verifyAnswer (JArray cs) (Str u) = someMatches cs (normalize u)"
      by (simp add: verifyAnswer_def)
    show ?thesis
    proof (cases "someMatches cs (normalize u)")
      case None
      then have "\<not> (\<not> ToString_throws (JArray cs) \<and>
                    (\<exists>pre s post. cs = map JString pre @ JString s # post \<and>
                                   normalize s = normalize u))"
        using someMatches_True_iff [of cs "normalize u"] by simp
      then have "(if \<not> ToString_throws (JArray cs) \<and>
                    (\<exists>pre s post. cs = map JString pre @ JString s # post \<and>
                                   normalize s = normalize u)
                 then isCorrectResponse True else verifyFailed) = verifyFailed"
        by (rule if_not_P)
      moreover have "verify_handler JSON_parse selectQuestion param (Inr (Str u)) = verifyFailed"
        using None nt by (simp add: found cs v del: ToString_throws.simps)
      ultimately show ?thesis by (simp only:)
    next
      case (Some b)
      with nf [OF cs, of "Str u"] v have t: "someMatches cs (normalize u) = Some True"
        by (cases b) auto
      then have "\<not> ToString_throws (JArray cs) \<and>
                    (\<exists>pre s post. cs = map JString pre @ JString s # post \<and>
                                   normalize s = normalize u)"
        using someMatches_True_iff [of cs "normalize u"] nt by simp
      then have "(if \<not> ToString_throws (JArray cs) \<and>
                    (\<exists>pre s post. cs = map JString pre @ JString s # post \<and>
                                   normalize s = normalize u)
                 then isCorrectResponse True else verifyFailed) = isCorrectResponse True"
        by (rule if_P)
      moreover have "verify_handler JSON_parse selectQuestion param (Inr (Str u)) =
                     isCorrectResponse True"
        using t nt by (simp add: found cs v del: ToString_throws.simps)
      ultimately show ?thesis by (simp only:)
    qed
  qed
  have c7: "verify_handler example_JSON_parse
              (example_select (example_question ''multiple_choice''
                                 ''[\"paris\",{\"toString\":1}]'')) ''1''
              (Inr (Str ''Paris'')) = verifyFailed"
    using verify_handler_found [where param = "''1''" and questionId = 1
        and selectQuestion = "example_select (example_question ''multiple_choice''
                                 ''[\"paris\",{\"toString\":1}]'')"
        and question = "example_question ''multiple_choice'' ''[\"paris\",{\"toString\":1}]''"
        and JSON_parse = example_JSON_parse and userAnswer = "Str ''Paris''"]
      parseInt_1 example_select_1 [of "''multiple_choice''" "''[\"paris\",{\"toString\":1}]''"]
      example_correctAnswers_toString [of "''multiple_choice''"]
    by simp
  have c8: "verifyFailed = Response 500 (JObject [(''message'', JString ''Failed to verify answer'')])"
    by (simp add: verifyFailed_def)
  from c1 c2 c3 c4 c5 c5' c6 c7 c8 show ?thesis by blast
qed

lemma example_not_deserializes:
  "\<not> deserializes example_JSON_parse (example_question t ''[\"paris\",5]'')"
  by (simp add: deserializes_def example_correctAnswers_mixed isStringArray_def)

theorem malformed_answers_never_incorrect_witness:
  "parseInt ''1'' = Some 1
   \<and> example_select (example_question ''multiple_choice'' ''[\"paris\",5]'') 1 =
       Inr (Some (example_question ''multiple_choice'' ''[\"paris\",5]''))
   \<and> \<not> deserializes example_JSON_parse (example_question ''multiple_choice'' ''[\"paris\",5]'')
   \<and> verify_handler example_JSON_parse
         (example_select (example_question ''multiple_choice'' ''[\"paris\",5]'')) ''1''
         (Inr (Arr [''paris''])) = verifyFailed
   \<and> verify_handler example_JSON_parse
         (example_select (example_question ''multiple_choice'' ''[\"paris\",5]'')) ''1''
         (Inr (Str ''London'')) \<noteq> isCorrectResponse False"
proof -
  note h1 = parseInt_1
  note h2 = example_select_1 [of "''multiple_choice''" "''[\"paris\",5]''"]
  note h3 = example_not_deserializes [of "''multiple_choice''"]
  show ?thesis
    using h1 h2 h3
      malformed_answers_never_incorrect [where param = "''1''" and questionId = 1
        and selectQuestion = "example_select (example_question ''multiple_choice'' ''[\"paris\",5]'')"
        and question = "example_question ''multiple_choice'' ''[\"paris\",5]''"
        and JSON_parse = example_JSON_parse and userAnswer = "Str ''London''"]
    by blast
qed

text \<open>
  C6 as stated fails: the stored text \<open>["paris",5]\<close> is not a list of strings, and the
  single answer "Paris" is answered 200 with \<open>isCorrect: true\<close>, not 500. The log line
  is written with the source \<open>paris,5\<close>.
\<close>

theorem malformed_answers_counterexample:
  "\<not> deserializes example_JSON_parse (example_question ''multiple_choice'' ''[\"paris\",5]'')
   \<and> verify_handler example_JSON_parse
         (example_select (example_question ''multiple_choice'' ''[\"paris\",5]'')) ''1''
         (Inr (Str ''Paris'')) = Response 200 (JObject [(''isCorrect'', JBool True)])"
proof -
  have "verify_handler example_JSON_parse
         (example_select (example_question ''multiple_choice'' ''[\"paris\",5]'')) ''1''
         (Inr (Str ''Paris'')) = isCorrectResponse True"
    using verify_handler_found [where param = "''1''" and questionId = 1
        and selectQuestion = "example_select (example_question ''multiple_choice'' ''[\"paris\",5]'')"
        and question = "example_question ''multiple_choice'' ''[\"paris\",5]''"
        and JSON_parse = example_JSON_parse and userAnswer = "Str ''Paris''"]
      parseInt_1 example_select_1 [of "''multiple_choice''" "''[\"paris\",5]''"]
      example_correctAnswers_mixed [of "''multiple_choice''"]
    by (simp add: verifyAnswer_def normalize_Paris)
  then show ?thesis
    using example_not_deserializes [of "''multiple_choice''"]
    by (simp add: isCorrectResponse_def)
qed

section \<open>Facts about parseInt and the read handlers\<close>

lemma digit_not_space: "isDecimalDigit c \<Longrightarrow> \<not> isWhiteSpace c"
  by (auto simp: isDecimalDigit_def isWhiteSpace_def)

lemma digit_not_sign: "isDecimalDigit c \<Longrightarrow> c \<noteq> CHR ''+'' \<and> c \<noteq> CHR ''-'' \<and> c \<noteq> CHR ''x'' \<and> c \<noteq> CHR ''X''"
  by (auto simp: isDecimalDigit_def)

lemma digit_isRadixDigit: "isDecimalDigit c \<Longrightarrow> isRadixDigit 10 c \<and> isRadixDigit 16 c"
  by (auto simp: isDecimalDigit_def isRadixDigit_def digitValue_def)

lemma isRadixDigit_10: "isRadixDigit 10 c = isDecimalDigit c"
  by (auto simp: isDecimalDigit_def isRadixDigit_def digitValue_def Let_def)

lemma parseInt_plain:
  assumes "s \<noteq> []" and "\<not> isWhiteSpace (hd s)" and "hd s \<noteq> CHR ''+''" and "hd s \<noteq> CHR ''-''"
    and "take 2 s \<noteq> ''0x''" and "take 2 s \<noteq> ''0X''"
  shows "parseInt s =
     (if takeWhile (isRadixDigit 10) s = [] then None
      else Some (int (mathInt 10 (takeWhile (isRadixDigit 10) s))))"
proof -
  have t: "trimStart s = s"
    using assms(1,2) by (cases s) (simp_all add: trimStart_def)
  show ?thesis
    unfolding parseInt_def Let_def t by (simp add: assms)
qed

lemma parseInt_numeric:
  assumes "isNumericString s"
  shows "parseInt s \<noteq> None"
proof -
  from assms obtain c cs where s: "s = c # cs" and c: "isDecimalDigit c"
    and cs: "list_all isDecimalDigit cs"
    by (cases s) (auto simp: isNumericString_def)
  have nohex: "take 2 s \<noteq> ''0x''" "take 2 s \<noteq> ''0X''"
  proof -
    show "take 2 s \<noteq> ''0x''"
    proof (cases cs)
      case Nil
      with s show ?thesis by simp
    next
      case (Cons d ds)
      with cs have "isDecimalDigit d" by simp
      with digit_not_sign [of d] s Cons show ?thesis by auto
    qed
    show "take 2 s \<noteq> ''0X''"
    proof (cases cs)
      case Nil
      with s show ?thesis by simp
    next
      case (Cons d ds)
      with cs have "isDecimalDigit d" by simp
      with digit_not_sign [of d] s Cons show ?thesis by auto
    qed
  qed
  have h: "s \<noteq> []" "\<not> isWhiteSpace (hd s)" "hd s \<noteq> CHR ''+''" "hd s \<noteq> CHR ''-''"
    using s c digit_not_space [of c] digit_not_sign [of c] by simp_all
  have z: "takeWhile (isRadixDigit 10) s \<noteq> []"
    using s c digit_isRadixDigit [of c] by simp
  show ?thesis
    unfolding parseInt_plain [OF h nohex] using z by simp
qed

lemma parseInt_not_digit:
  assumes "s \<noteq> []" and "\<not> isWhiteSpace (hd s)" and "hd s \<noteq> CHR ''+''" and "hd s \<noteq> CHR ''-''"
    and "\<not> isDecimalDigit (hd s)"
  shows "parseInt s = None"
proof -
  from assms(1) obtain c cs where s: "s = c # cs" by (cases s) auto
  have "c \<noteq> CHR ''0''" using assms(5) s by (auto simp: isDecimalDigit_def)
  then have nohex: "take 2 s \<noteq> ''0x''" "take 2 s \<noteq> ''0X''"
    using s by (cases cs; simp)+
  have z: "takeWhile (isRadixDigit 10) s = []"
    using s assms(5) by (simp add: isRadixDigit_10)
  show ?thesis
    unfolding parseInt_plain [OF assms(1-4) nohex] using z by simp
qed

lemma status_checkExpired:
  "status (checkExpired isExpired quiz) = (if isExpired quiz then 410 else 200)"
  by (simp add: checkExpired_def quizExpired_def)

lemma parseInt_12abc: "parseInt ''12abc'' = Some 12"
  by (simp add: parseInt_def trimStart_def isWhiteSpace_def isRadixDigit_def digitValue_def
      mathInt_def)

text \<open>
  C9, as the code has it. GET /api/quizzes/:quizId answers 400 exactly when \<open>parseInt\<close>
  of the path segment is \<open>NaN\<close>, and otherwise goes on to the lookup under the number
  \<open>parseInt\<close> read. Every numeric string is looked up; every segment whose first
  character is neither white space, a sign nor a decimal digit is answered 400.
\<close>

theorem getQuizById_invalid_id:
  "(parseInt param = None \<longrightarrow>
      getQuizById_handler getQuiz isExpired param =
        Response 400 (JObject [(''message'', JString ''Invalid quiz ID'')]))
   \<and> (status (getQuizById_handler getQuiz isExpired param) = 400 \<longleftrightarrow> parseInt param = None)
   \<and> (\<forall>quizId. parseInt param = Some quizId \<longrightarrow>
         getQuizById_handler getQuiz isExpired param =
           (case getQuiz quizId of
              Inl e \<Rightarrow> fetchFailed
            | Inr None \<Rightarrow> quizNotFound
            | Inr (Some quiz) \<Rightarrow> checkExpired isExpired quiz))
   \<and> (isNumericString param \<longrightarrow> parseInt param \<noteq> None)
   \<and> (param \<noteq> [] \<and> \<not> isWhiteSpace (hd param) \<and> hd param \<noteq> CHR ''+'' \<and>
      hd param \<noteq> CHR ''-'' \<and> \<not> isDecimalDigit (hd param) \<longrightarrow>
        getQuizById_handler getQuiz isExpired param =
          Response 400 (JObject [(''message'', JString ''Invalid quiz ID'')]))"
proof -
  have a: "parseInt param = None \<Longrightarrow>
      getQuizById_handler getQuiz isExpired param =
        Response 400 (JObject [(''message'', JString ''Invalid quiz ID'')])"
    by (simp add: getQuizById_handler_def)
  have c: "getQuizById_handler getQuiz isExpired param =
           (case getQuiz quizId of
              Inl e \<Rightarrow> fetchFailed
            | Inr None \<Rightarrow> quizNotFound
            | Inr (Some quiz) \<Rightarrow> checkExpired isExpired quiz)"
    if "parseInt param = Some quizId" for quizId
    using that by (simp add: getQuizById_handler_def)
  have b: "status (getQuizById_handler getQuiz isExpired param) = 400 \<longleftrightarrow> parseInt param = None"
  proof (cases "parseInt param")
    case None
    then show ?thesis by (simp add: a)
  next
    case (Some quizId)
    have "status (getQuizById_handler getQuiz isExpired param) \<noteq> 400"
      by (simp add: c [OF Some] fetchFailed_def quizNotFound_def status_checkExpired
          split: sum.splits option.splits)
    with Some show ?thesis by simp
  qed
  have d: "isNumericString param \<Longrightarrow> parseInt param \<noteq> None"
    by (rule parseInt_numeric)
  have e: "getQuizById_handler getQuiz isExpired param =
          Response 400 (JObject [(''message'', JString ''Invalid quiz ID'')])"
    if "param \<noteq> [] \<and> \<not> isWhiteSpace (hd param) \<and> hd param \<noteq> CHR ''+'' \<and>
      hd param \<noteq> CHR ''-'' \<and> \<not> isDecimalDigit (hd param)"
    using that parseInt_not_digit [of param] a by blast
  from a b c d e show ?thesis by blast
qed

theorem getQuizById_invalid_id_witness:
  "parseInt ''abc'' = None
   \<and> getQuizById_handler (example_getQuiz (example_quiz 12 ''2024-01-01T00:00:00.000Z''))
        (isQuizExpired example_getTime 1704153600000) ''abc'' =
      Response 400 (JObject [(''message'', JString ''Invalid quiz ID'')])"
proof -
  have h: "parseInt ''abc'' = None"
    by (simp add: parseInt_def trimStart_def isWhiteSpace_def isRadixDigit_def digitValue_def)
  show ?thesis
    using h getQuizById_invalid_id [where param = "''abc''"
        and getQuiz = "example_getQuiz (example_quiz 12 ''2024-01-01T00:00:00.000Z'')"
        and isExpired = "isQuizExpired example_getTime 1704153600000"]
    by blast
qed

text \<open>
  C9 as stated fails: the segment \<open>12abc\<close> is not a numeric string, and the request is
  answered 200 with quiz 12.
\<close>

theorem getQuizById_invalid_id_counterexample:
  "\<not> isNumericString ''12abc''
   \<and> getQuizById_handler (example_getQuiz (example_quiz 12 ''2024-01-01T00:00:00.000Z''))
        (isQuizExpired example_getTime 1704153600000) ''12abc'' =
      Response 200 (quiz_json (example_quiz 12 ''2024-01-01T00:00:00.000Z''))"
proof -
  have "\<not> isNumericString ''12abc''"
    by (simp add: isNumericString_def isDecimalDigit_def)
  moreover have "getQuizById_handler (example_getQuiz (example_quiz 12 ''2024-01-01T00:00:00.000Z''))
        (isQuizExpired example_getTime 1704153600000) ''12abc'' =
      Response 200 (quiz_json (example_quiz 12 ''2024-01-01T00:00:00.000Z''))"
    by (simp add: getQuizById_handler_def parseInt_12abc example_getQuiz_def example_quiz_def
        checkExpired_def isQuizExpired_def example_getTime_def)
  ultimately show ?thesis by blast
qed

lemma isQuizExpired_iff:
  "isQuizExpired getTime now quiz \<longleftrightarrow> now > getTime (quiz_createdAt quiz) + 604800000"
  by (simp add: isQuizExpired_def)

lemma status_quiz_responses:
  "status quizNotFound = 404" "status quizExpired = 410" "status fetchFailed = 500"
  by (simp_all add: quizNotFound_def quizExpired_def fetchFailed_def)

lemma byAccessCode_status:
  "status (getQuizByAccessCode_handler lookup isExpired key) =
     (case lookup key of
        Inl e \<Rightarrow> 500
      | Inr None \<Rightarrow> 404
      | Inr (Some quiz) \<Rightarrow> if isExpired quiz then 410 else 200)"
  by (simp add: getQuizByAccessCode_handler_def status_quiz_responses status_checkExpired
      split: sum.splits option.splits)

lemma byDashboardToken_status:
  "status (getQuizByDashboardToken_handler lookup isExpired key) =
     (case lookup key of
        Inl e \<Rightarrow> 500
      | Inr None \<Rightarrow> 404
      | Inr (Some quiz) \<Rightarrow> if isExpired quiz then 410 else 200)"
  by (simp add: getQuizByDashboardToken_handler_def status_quiz_responses status_checkExpired
      split: sum.splits option.splits)

lemma byId_status:
  "parseInt param = Some quizId \<Longrightarrow>
   status (getQuizById_handler lookup isExpired param) =
     (case lookup quizId of
        Inl e \<Rightarrow> 500
      | Inr None \<Rightarrow> 404
      | Inr (Some quiz) \<Rightarrow> if isExpired quiz then 410 else 200)"
  by (simp add: getQuizById_handler_def status_quiz_responses status_checkExpired
      split: sum.splits option.splits)

lemma byUrlSlug_status:
  "status (getQuizByUrlSlug_handler lookup selectAll isExpired urlSlug) =
     (case lookup urlSlug of
        Inl e \<Rightarrow> 500
      | Inr (Some quiz) \<Rightarrow> if isExpired quiz then 410 else 200
      | Inr None \<Rightarrow>
          (case selectAll of
             Inl e \<Rightarrow> 500
           | Inr allQuizzesList \<Rightarrow>
               (case find (\<lambda>q. toLowerCase (quiz_urlSlug q) = toLowerCase urlSlug)
                       allQuizzesList of
                  None \<Rightarrow> 404
                | Some quiz \<Rightarrow> if isExpired quiz then 410 else 200)))"
  by (simp add: getQuizByUrlSlug_handler_def status_quiz_responses status_checkExpired
      split: sum.splits option.splits)

lemma find_None_slug:
  "find P qs = None \<longleftrightarrow> (\<forall>q \<in> set qs. \<not> P q)"
  by (auto simp: find_None_iff)

text \<open>
  C4. On each of the four read paths (access code, URL slug, dashboard token, id), with
  the expiry test of the Expiry Policy: a key that matches no quiz is answered 404 with
  the message "Quiz not found"; a key that matches a quiz with
  \<open>now > createdAt + 7 days\<close> is answered 410 with \<open>expired: true\<close>, the message
  "Quiz expired" and a detail that contains "available for 7 days after creation". The
  status is 410 only for a quiz that was found and is expired, and 404 only when none was
  found. By slug, a quiz matches when the exact lookup finds it or its slug agrees with
  the key after lower-casing; by id, the key is the number \<open>parseInt\<close> reads from the
  path segment.
\<close>

theorem expired_is_not_not_found:
  "(status (getQuizByAccessCode_handler byCode (isQuizExpired getTime now) key) = 404 \<longleftrightarrow>
      byCode key = Inr None)
   \<and> (status (getQuizByAccessCode_handler byCode (isQuizExpired getTime now) key) = 410 \<longleftrightarrow>
      (\<exists>quiz. byCode key = Inr (Some quiz) \<and> now > getTime (quiz_createdAt quiz) + 604800000))
   \<and> (status (getQuizByDashboardToken_handler byToken (isQuizExpired getTime now) key) = 404 \<longleftrightarrow>
      byToken key = Inr None)
   \<and> (status (getQuizByDashboardToken_handler byToken (isQuizExpired getTime now) key) = 410 \<longleftrightarrow>
      (\<exists>quiz. byToken key = Inr (Some quiz) \<and> now > getTime (quiz_createdAt quiz) + 604800000))
   \<and> (\<forall>quizId. parseInt param = Some quizId \<longrightarrow>
        (status (getQuizById_handler byId (isQuizExpired getTime now) param) = 404 \<longleftrightarrow>
           byId quizId = Inr None) \<and>
        (status (getQuizById_handler byId (isQuizExpired getTime now) param) = 410 \<longleftrightarrow>
           (\<exists>quiz. byId quizId = Inr (Some quiz) \<and>
                   now > getTime (quiz_createdAt quiz) + 604800000)))
   \<and> (status (getQuizByUrlSlug_handler bySlug (Inr allQuizzes) (isQuizExpired getTime now) key)
        = 404 \<longleftrightarrow>
      bySlug key = Inr None \<and>
      (\<forall>q \<in> set allQuizzes. toLowerCase (quiz_urlSlug q) \<noteq> toLowerCase key))
   \<and> (status (getQuizByUrlSlug_handler bySlug (Inr allQuizzes) (isQuizExpired getTime now) key)
        = 410 \<longleftrightarrow>
      (\<exists>quiz. (bySlug key = Inr (Some quiz) \<or>
               bySlug key = Inr None \<and>
               find (\<lambda>q. toLowerCase (quiz_urlSlug q) = toLowerCase key) allQuizzes = Some quiz) \<and>
              now > getTime (quiz_createdAt quiz) + 604800000))
   \<and> (\<forall>r \<in> {getQuizByAccessCode_handler byCode (isQuizExpired getTime now) key,
              getQuizByDashboardToken_handler byToken (isQuizExpired getTime now) key,
              getQuizById_handler byId (isQuizExpired getTime now) param,
              getQuizByUrlSlug_handler bySlug selectAll (isQuizExpired getTime now) key}.
         (status r = 404 \<longrightarrow> r = quizNotFound) \<and> (status r = 410 \<longrightarrow> r = quizExpired))
   \<and> field ''message'' (body quizNotFound) = Some (JString ''Quiz not found'')
   \<and> field ''expired'' (body quizNotFound) = None
   \<and> field ''message'' (body quizExpired) = Some (JString ''Quiz expired'')
   \<and> field ''expired'' (body quizExpired) = Some (JBool True)
   \<and> field ''detail'' (body quizExpired) =
       Some (JString (''This quiz has expired. Quizzes are '' @
                      ''available for 7 days after creation'' @ ''.''))"
proof -
  let ?e = "isQuizExpired getTime now"
  have c1: "status (getQuizByAccessCode_handler byCode ?e key) = 404 \<longleftrightarrow> byCode key = Inr None"
    by (simp add: byAccessCode_status split: sum.splits option.splits)
  have c2: "status (getQuizByAccessCode_handler byCode ?e key) = 410 \<longleftrightarrow>
      (\<exists>quiz. byCode key = Inr (Some quiz) \<and> now > getTime (quiz_createdAt quiz) + 604800000)"
    by (simp add: byAccessCode_status isQuizExpired_iff split: sum.splits option.splits)
  have t1: "status (getQuizByDashboardToken_handler byToken ?e key) = 404 \<longleftrightarrow>
      byToken key = Inr None"
    by (simp add: byDashboardToken_status split: sum.splits option.splits)
  have t2: "status (getQuizByDashboardToken_handler byToken ?e key) = 410 \<longleftrightarrow>
      (\<exists>quiz. byToken key = Inr (Some quiz) \<and> now > getTime (quiz_createdAt quiz) + 604800000)"
    by (simp add: byDashboardToken_status isQuizExpired_iff split: sum.splits option.splits)
  have i1: "status (getQuizById_handler byId ?e param) = 404 \<longleftrightarrow> byId quizId = Inr None"
    if "parseInt param = Some quizId" for quizId
    by (simp add: byId_status [OF that] split: sum.splits option.splits)
  have i2: "status (getQuizById_handler byId ?e param) = 410 \<longleftrightarrow>
           (\<exists>quiz. byId quizId = Inr (Some quiz) \<and>
                   now > getTime (quiz_createdAt quiz) + 604800000)"
    if "parseInt param = Some quizId" for quizId
    by (simp add: byId_status [OF that] isQuizExpired_iff split: sum.splits option.splits)
  have s1: "status (getQuizByUrlSlug_handler bySlug (Inr allQuizzes) ?e key) = 404 \<longleftrightarrow>
      bySlug key = Inr None \<and>
      (\<forall>q \<in> set allQuizzes. toLowerCase (quiz_urlSlug q) \<noteq> toLowerCase key)"
    by (auto simp: byUrlSlug_status find_None_slug [symmetric] split: sum.splits option.splits)
  have s2: "status (getQuizByUrlSlug_handler bySlug (Inr allQuizzes) ?e key) = 410 \<longleftrightarrow>
      (\<exists>quiz. (bySlug key = Inr (Some quiz) \<or>
               bySlug key = Inr None \<and>
               find (\<lambda>q. toLowerCase (quiz_urlSlug q) = toLowerCase key) allQuizzes = Some quiz) \<and>
              now > getTime (quiz_createdAt quiz) + 604800000)"
    by (auto simp: byUrlSlug_status isQuizExpired_iff split: sum.splits option.splits)
  have ce: "(status (checkExpired ?e q) = 404 \<longrightarrow> checkExpired ?e q = quizNotFound) \<and>
            (status (checkExpired ?e q) = 410 \<longrightarrow> checkExpired ?e q = quizExpired)" for q
    by (simp add: checkExpired_def quizExpired_def)
  have nf: "(status quizNotFound = 404 \<longrightarrow> quizNotFound = quizNotFound) \<and>
            (status quizNotFound = 410 \<longrightarrow> quizNotFound = quizExpired)"
    by (simp add: status_quiz_responses)
  have ff: "(status fetchFailed = 404 \<longrightarrow> fetchFailed = quizNotFound) \<and>
            (status fetchFailed = 410 \<longrightarrow> fetchFailed = quizExpired)"
    by (simp add: status_quiz_responses)
  have bad: "(status (Response 400 b) = 404 \<longrightarrow> Response 400 b = quizNotFound) \<and>
            (status (Response 400 b) = 410 \<longrightarrow> Response 400 b = quizExpired)" for b
    by simp
  have r1: "(status (getQuizByAccessCode_handler byCode ?e key) = 404 \<longrightarrow>
              getQuizByAccessCode_handler byCode ?e key = quizNotFound) \<and>
            (status (getQuizByAccessCode_handler byCode ?e key) = 410 \<longrightarrow>
              getQuizByAccessCode_handler byCode ?e key = quizExpired)"
    unfolding getQuizByAccessCode_handler_def
    using ce nf ff by (simp split: sum.splits option.splits)
  have r2: "(status (getQuizByDashboardToken_handler byToken ?e key) = 404 \<longrightarrow>
              getQuizByDashboardToken_handler byToken ?e key = quizNotFound) \<and>
            (status (getQuizByDashboardToken_handler byToken ?e key) = 410 \<longrightarrow>
              getQuizByDashboardToken_handler byToken ?e key = quizExpired)"
    unfolding getQuizByDashboardToken_handler_def
    using ce nf ff by (simp split: sum.splits option.splits)
  have r3: "(status (getQuizById_handler byId ?e param) = 404 \<longrightarrow>
              getQuizById_handler byId ?e param = quizNotFound) \<and>
            (status (getQuizById_handler byId ?e param) = 410 \<longrightarrow>
              getQuizById_handler byId ?e param = quizExpired)"
    unfolding getQuizById_handler_def
    using ce nf ff bad by (simp split: sum.splits option.splits)
  have r4: "(status (getQuizByUrlSlug_handler bySlug selectAll ?e key) = 404 \<longrightarrow>
              getQuizByUrlSlug_handler bySlug selectAll ?e key = quizNotFound) \<and>
            (status (getQuizByUrlSlug_handler bySlug selectAll ?e key) = 410 \<longrightarrow>
              getQuizByUrlSlug_handler bySlug selectAll ?e key = quizExpired)"
    unfolding getQuizByUrlSlug_handler_def
    using ce nf ff by (simp split: sum.splits option.splits)
  have r: "\<forall>r \<in> {getQuizByAccessCode_handler byCode ?e key,
              getQuizByDashboardToken_handler byToken ?e key,
              getQuizById_handler byId ?e param,
              getQuizByUrlSlug_handler bySlug selectAll ?e key}.
         (status r = 404 \<longrightarrow> r = quizNotFound) \<and> (status r = 410 \<longrightarrow> r = quizExpired)"
    using r1 r2 r3 r4 by blast
  have f1: "field ''message'' (body quizNotFound) = Some (JString ''Quiz not found'')"
    by (simp add: field_def quizNotFound_def)
  have f2: "field ''expired'' (body quizNotFound) = None"
    by (simp add: field_def quizNotFound_def)
  have f3: "field ''message'' (body quizExpired) = Some (JString ''Quiz expired'')"
    by (simp add: field_def quizExpired_def)
  have f4: "field ''expired'' (body quizExpired) = Some (JBool True)"
    by (simp add: field_def quizExpired_def)
  have f5: "field ''detail'' (body quizExpired) =
       Some (JString (''This quiz has expired. Quizzes are '' @
                      ''available for 7 days after creation'' @ ''.''))"
    by (simp add: field_def quizExpired_def)
  from c1 c2 t1 t2 i1 i2 s1 s2 r f1 f2 f3 f4 f5 show ?thesis by blast
qed

theorem expired_is_not_not_found_witness:
  "example_getQuizBy quiz_accessCode (example_quiz 12 ''2024-01-01T00:00:00.000Z'') ''ABC123'' =
     Inr (Some (example_quiz 12 ''2024-01-01T00:00:00.000Z''))
   \<and> (1704758400000 :: int) >
       example_getTime (quiz_createdAt (example_quiz 12 ''2024-01-01T00:00:00.000Z'')) + 604800000
   \<and> getQuizByAccessCode_handler
        (example_getQuizBy quiz_accessCode (example_quiz 12 ''2024-01-01T00:00:00.000Z''))
        (isQuizExpired example_getTime 1704758400000) ''ABC123'' = quizExpired
   \<and> example_getQuizBy quiz_accessCode (example_quiz 12 ''2024-01-01T00:00:00.000Z'') ''ZZZ999'' =
     Inr None
   \<and> getQuizByAccessCode_handler
        (example_getQuizBy quiz_accessCode (example_quiz 12 ''2024-01-01T00:00:00.000Z''))
        (isQuizExpired example_getTime 1704758400000) ''ZZZ999'' = quizNotFound"
proof -
  have h1: "example_getQuizBy quiz_accessCode (example_quiz 12 ''2024-01-01T00:00:00.000Z'')
      ''ABC123'' = Inr (Some (example_quiz 12 ''2024-01-01T00:00:00.000Z''))"
    by (simp add: example_getQuizBy_def example_quiz_def)
  have h2: "(1704758400000 :: int) >
       example_getTime (quiz_createdAt (example_quiz 12 ''2024-01-01T00:00:00.000Z'')) + 604800000"
    by (simp add: example_getTime_def example_quiz_def)
  have h3: "example_getQuizBy quiz_accessCode (example_quiz 12 ''2024-01-01T00:00:00.000Z'')
      ''ZZZ999'' = Inr None"
    by (simp add: example_getQuizBy_def example_quiz_def)
  let ?q = "example_quiz 12 ''2024-01-01T00:00:00.000Z''"
  let ?e = "isQuizExpired example_getTime 1704758400000"
  note T = expired_is_not_not_found [where now = 1704758400000
      and getTime = example_getTime and byCode = "example_getQuizBy quiz_accessCode ?q"
      and byToken = "example_getQuizBy quiz_dashboardToken ?q"
      and bySlug = "example_getQuizBy quiz_urlSlug ?q" and byId = "example_getQuiz ?q"
      and param = "''12''" and allQuizzes = "[?q]" and selectAll = "Inr [?q]"]
  have a: "getQuizByAccessCode_handler (example_getQuizBy quiz_accessCode ?q) ?e ''ABC123'' =
      quizExpired"
  proof -
    note U = T [where key = "''ABC123''"]
    have "status (getQuizByAccessCode_handler (example_getQuizBy quiz_accessCode ?q) ?e
        ''ABC123'') = 410"
      using U [THEN conjunct2, THEN conjunct1] h1 h2 by blast
    moreover have "status (getQuizByAccessCode_handler (example_getQuizBy quiz_accessCode ?q) ?e
        ''ABC123'') = 410 \<longrightarrow>
      getQuizByAccessCode_handler (example_getQuizBy quiz_accessCode ?q) ?e ''ABC123'' =
      quizExpired"
      using U [THEN conjunct2, THEN conjunct2, THEN conjunct2, THEN conjunct2, THEN conjunct2,
          THEN conjunct2, THEN conjunct2, THEN conjunct1]
      by simp
    ultimately show ?thesis by blast
  qed
  have b: "getQuizByAccessCode_handler (example_getQuizBy quiz_accessCode ?q) ?e ''ZZZ999'' =
      quizNotFound"
  proof -
    note U = T [where key = "''ZZZ999''"]
    have "status (getQuizByAccessCode_handler (example_getQuizBy quiz_accessCode ?q) ?e
        ''ZZZ999'') = 404"
      using U [THEN conjunct1] h3 by blast
    moreover have "status (getQuizByAccessCode_handler (example_getQuizBy quiz_accessCode ?q) ?e
        ''ZZZ999'') = 404 \<longrightarrow>
      getQuizByAccessCode_handler (example_getQuizBy quiz_accessCode ?q) ?e ''ZZZ999'' =
      quizNotFound"
      using U [THEN conjunct2, THEN conjunct2, THEN conjunct2, THEN conjunct2, THEN conjunct2,
          THEN conjunct2, THEN conjunct2, THEN conjunct1]
      by simp
    ultimately show ?thesis by blast
  qed
  from h1 h2 h3 a b show ?thesis by blast
qed

section \<open>Facts about quiz creation\<close>

lemma trim_eq_Nil_iff: "trim s = [] \<longleftrightarrow> list_all isWhiteSpace s"
proof
  assume "trim s = []"
  then have a: "\<forall>c \<in> set (dropWhile isWhiteSpace s). isWhiteSpace c"
    by (simp add: trim_def dropWhile_eq_Nil_conv)
  show "list_all isWhiteSpace s"
  proof (cases "dropWhile isWhiteSpace s")
    case Nil
    then show ?thesis by (simp add: dropWhile_eq_Nil_conv list_all_iff)
  next
    case (Cons c cs)
    then have "\<not> isWhiteSpace c" using hd_dropWhile [of isWhiteSpace s] by auto
    moreover have "isWhiteSpace c" using a Cons by simp
    ultimately show ?thesis by simp
  qed
next
  assume "list_all isWhiteSpace s"
  then show "trim s = []" by (rule trim_whitespace)
qed

lemma emydan_not_blank:
  assumes "toLowerCase name = ''emydan''"
  shows "name \<noteq> [] \<and> trim name \<noteq> []"
proof -
  from assms obtain c cs where n: "name = c # cs" and c: "toLowerCaseChar c = CHR ''e''"
    by (cases name) (auto simp: toLowerCase_def)
  have "isWhiteSpace c = isWhiteSpace CHR ''e''"
    using isWhiteSpace_toLowerCaseChar [of c] c by simp
  then have "\<not> isWhiteSpace c" by (simp add: isWhiteSpace_def)
  then have "\<not> list_all isWhiteSpace name" using n by simp
  then show ?thesis using n by (simp add: trim_eq_Nil_iff)
qed

text \<open>
  C5. A quiz-creation request whose body passes the schema and whose creatorName is empty
  or consists of white space only is answered 400 with the error code
  EMPTY_CREATOR_NAME; one whose creatorName is "emydan" in any letter case is answered
  400 with the different error code DEFAULT_CREATOR_NAME_USED; a body that fails the
  schema is answered 400 as well. In all three cases the storage is left as it was,
  whatever \<open>storage.createQuiz\<close> would do.
\<close>

theorem creator_name_rejected:
  "(list_all isWhiteSpace (insert_creatorName quizData) \<longrightarrow>
      createQuiz_handler createQuiz (Inr quizData) db =
        (Response 400 (JObject [(''message'', JString ''Creator name cannot be empty''),
                                (''error'', JString ''EMPTY_CREATOR_NAME'')]), db))
   \<and> (toLowerCase (insert_creatorName quizData) = ''emydan'' \<longrightarrow>
      createQuiz_handler createQuiz (Inr quizData) db =
        (Response 400
           (JObject [(''message'',
                      JString ''Cannot use default creator name. Please enter your own name.''),
                     (''error'', JString ''DEFAULT_CREATOR_NAME_USED'')]), db))
   \<and> createQuiz_handler createQuiz (Inl flattened) db =
        (Response 400 (JObject [(''message'', JString ''Invalid quiz data''),
                                (''error'', flattened)]), db)
   \<and> JString ''EMPTY_CREATOR_NAME'' \<noteq> JString ''DEFAULT_CREATOR_NAME_USED''"
proof -
  have a: "createQuiz_handler createQuiz (Inr quizData) db =
        (Response 400 (JObject [(''message'', JString ''Creator name cannot be empty''),
                                (''error'', JString ''EMPTY_CREATOR_NAME'')]), db)"
    if "list_all isWhiteSpace (insert_creatorName quizData)"
    using that by (simp add: createQuiz_handler_def trim_eq_Nil_iff)
  have b: "createQuiz_handler createQuiz (Inr quizData) db =
        (Response 400
           (JObject [(''message'',
                      JString ''Cannot use default creator name. Please enter your own name.''),
                     (''error'', JString ''DEFAULT_CREATOR_NAME_USED'')]), db)"
    if "toLowerCase (insert_creatorName quizData) = ''emydan''"
    using that emydan_not_blank [OF that] by (simp add: createQuiz_handler_def)
  have c: "createQuiz_handler createQuiz (Inl flattened) db =
        (Response 400 (JObject [(''message'', JString ''Invalid quiz data''),
                                (''error'', flattened)]), db)"
    by (simp add: createQuiz_handler_def)
  have d: "JString ''EMPTY_CREATOR_NAME'' \<noteq> JString ''DEFAULT_CREATOR_NAME_USED''"
    by simp
  from a b c d show ?thesis by blast
qed

theorem creator_name_rejected_witness:
  "list_all isWhiteSpace (insert_creatorName (example_insert_quiz ''  ''))
   \<and> toLowerCase (insert_creatorName (example_insert_quiz ''EmyDan'')) = ''emydan''
   \<and> createQuiz_handler example_createQuiz (Inr (example_insert_quiz ''  '')) [] =
        (Response 400 (JObject [(''message'', JString ''Creator name cannot be empty''),
                                (''error'', JString ''EMPTY_CREATOR_NAME'')]), [])
   \<and> createQuiz_handler example_createQuiz (Inr (example_insert_quiz ''EmyDan'')) [] =
        (Response 400
           (JObject [(''message'',
                      JString ''Cannot use default creator name. Please enter your own name.''),
                     (''error'', JString ''DEFAULT_CREATOR_NAME_USED'')]), [])
   \<and> fst (createQuiz_handler example_createQuiz (Inr (example_insert_quiz ''Ada'')) []) =
        Response 201 (quiz_json (example_quiz 1 ''2024-01-01T00:00:00.000Z''))
   \<and> length (snd (createQuiz_handler example_createQuiz (Inr (example_insert_quiz ''Ada'')) []))
        = 1"
proof -
  have h1: "list_all isWhiteSpace (insert_creatorName (example_insert_quiz ''  ''))"
    by (simp add: example_insert_quiz_def isWhiteSpace_def)
  have h2: "toLowerCase (insert_creatorName (example_insert_quiz ''EmyDan'')) = ''emydan''"
    by (simp add: example_insert_quiz_def string_eval)
  have na: "trim ''Ada'' = ''Ada''" "toLowerCase ''Ada'' = ''ada''"
    by (simp_all add: string_eval)
  have ok: "createQuiz_handler example_createQuiz (Inr (example_insert_quiz ''Ada'')) [] =
      (Response 201 (quiz_json (example_quiz 1 ''2024-01-01T00:00:00.000Z'')),
       [example_quiz 1 ''2024-01-01T00:00:00.000Z''])"
    by (simp add: createQuiz_handler_def example_insert_quiz_def na example_createQuiz_def
        example_quiz_def Let_def)
  note T1 = creator_name_rejected [where quizData = "example_insert_quiz ''  ''"
      and createQuiz = example_createQuiz and db = "[]" and flattened = JNull]
  note T2 = creator_name_rejected [where quizData = "example_insert_quiz ''EmyDan''"
      and createQuiz = example_createQuiz and db = "[]" and flattened = JNull]
  have a: "createQuiz_handler example_createQuiz (Inr (example_insert_quiz ''  '')) [] =
        (Response 400 (JObject [(''message'', JString ''Creator name cannot be empty''),
                                (''error'', JString ''EMPTY_CREATOR_NAME'')]), [])"
    using T1 [THEN conjunct1] h1 by blast
  have b: "createQuiz_handler example_createQuiz (Inr (example_insert_quiz ''EmyDan'')) [] =
        (Response 400
           (JObject [(''message'',
                      JString ''Cannot use default creator name. Please enter your own name.''),
                     (''error'', JString ''DEFAULT_CREATOR_NAME_USED'')]), [])"
    using T2 [THEN conjunct2, THEN conjunct1] h2 by blast
  from h1 h2 a b ok show ?thesis by simp
qed

section \<open>Facts about the retention sweep\<close>

lemma cleanup_try_ok:
  assumes "select_throws faults = None" and "deleteAttempts_throws faults = None"
    and "deleteQuestions_throws faults = None" and "deleteQuizzes_throws faults = None"
  shows "cleanup_try faults cutoff db =
     (let expiredQuizzes = selectExpiredQuizzes cutoff db;
          expiredQuizIds = map quiz_id expiredQuizzes
      in if expiredQuizzes = []
         then (Inr \<lparr>success = True, message = ''No expired quizzes found to clean up'',
                    count = Some 0, quizIds = None, error = None\<rparr>, db, [])
         else (Inr \<lparr>success = True,
                    message = ''Cleaned up '' @ showNat (length expiredQuizzes) @
                      '' expired quizzes'',
                    count = Some (length expiredQuizzes), quizIds = Some expiredQuizIds,
                    error = None\<rparr>,
               \<lparr>quizzes = filter (\<lambda>q. quiz_id q \<notin> set expiredQuizIds) (quizzes db),
                questions = filter (\<lambda>q. question_quizId q \<notin> set expiredQuizIds) (questions db),
                quizAttempts =
                  filter (\<lambda>a. attempt_quizId a \<notin> set expiredQuizIds) (quizAttempts db)\<rparr>,
               CleanupImages expiredQuizIds #
                 (case cleanupOldQuizImages_throws faults of
                    Some imageError \<Rightarrow> [ImageErrorLogged imageError]
                  | None \<Rightarrow> []) @
                 [DeleteAttempts expiredQuizIds, DeleteQuestions expiredQuizIds,
                  DeleteQuizzes expiredQuizIds]))"
  using assms by (simp add: cleanup_try_def Let_def)



lemma example_createdAt_order:
  "''2023-12-31T00:00:00.000Z'' < example_cutoff" "\<not> ''2024-01-02T00:00:00.000Z'' < example_cutoff"
  by (simp_all add: example_cutoff_def)

lemma cleanupExpiredQuizzes_ok:
  assumes "select_throws faults = None" and "deleteAttempts_throws faults = None"
    and "deleteQuestions_throws faults = None" and "deleteQuizzes_throws faults = None"
    and "selectExpiredQuizzes (cutoffOf LocalTZA toISOString now) db \<noteq> []"
  shows "cleanupExpiredQuizzes faults LocalTZA toISOString now db =
     (\<lparr>success = True,
       message = ''Cleaned up '' @ showNat (length (selectExpiredQuizzes (cutoffOf LocalTZA toISOString now) db)) @
                 '' expired quizzes'',
       count = Some (length (selectExpiredQuizzes (cutoffOf LocalTZA toISOString now) db)),
       quizIds = Some (map quiz_id (selectExpiredQuizzes (cutoffOf LocalTZA toISOString now) db)),
       error = None\<rparr>,
      \<lparr>quizzes = filter (\<lambda>q. quiz_id q \<notin> set (map quiz_id (selectExpiredQuizzes (cutoffOf LocalTZA toISOString now) db)))
                   (quizzes db),
       questions =
         filter (\<lambda>q. question_quizId q \<notin> set (map quiz_id (selectExpiredQuizzes (cutoffOf LocalTZA toISOString now) db)))
           (questions db),
       quizAttempts =
         filter (\<lambda>a. attempt_quizId a \<notin> set (map quiz_id (selectExpiredQuizzes (cutoffOf LocalTZA toISOString now) db)))
           (quizAttempts db)\<rparr>,
      CleanupImages (map quiz_id (selectExpiredQuizzes (cutoffOf LocalTZA toISOString now) db)) #
        (case cleanupOldQuizImages_throws faults of
           Some imageError \<Rightarrow> [ImageErrorLogged imageError]
         | None \<Rightarrow> []) @
        [DeleteAttempts (map quiz_id (selectExpiredQuizzes (cutoffOf LocalTZA toISOString now) db)),
         DeleteQuestions (map quiz_id (selectExpiredQuizzes (cutoffOf LocalTZA toISOString now) db)),
         DeleteQuizzes (map quiz_id (selectExpiredQuizzes (cutoffOf LocalTZA toISOString now) db))])"
  using assms(5)
  by (simp add: cleanupExpiredQuizzes_def cleanup_try_ok [OF assms(1-4)] Let_def cutoffOf_def)

lemma cleanupExpiredQuizzes_none:
  assumes "select_throws faults = None" and "selectExpiredQuizzes (cutoffOf LocalTZA toISOString now) db = []"
  shows "cleanupExpiredQuizzes faults LocalTZA toISOString now db =
     (\<lparr>success = True, message = ''No expired quizzes found to clean up'',
       count = Some 0, quizIds = None, error = None\<rparr>, db, [])"
  using assms by (simp add: cleanupExpiredQuizzes_def cleanup_try_def Let_def cutoffOf_def)


lemma getRetentionCutoffDate_UTC: "getRetentionCutoffDate LocalTZA_UTC now = now - 604800000"
  by (simp add: getRetentionCutoffDate_def Let_def LocalTZA_UTC_def)



lemma example_selectExpired:
  "selectExpiredQuizzes example_cutoff example_db = [example_quiz 1 ''2023-12-31T00:00:00.000Z'']"
  using example_createdAt_order
  by (simp add: selectExpiredQuizzes_def example_db_def example_quiz_def)


lemma example_cutoff_2024: "cutoffOf LocalTZA_UTC example_toISOString sweep_2024 = example_cutoff"
  by (simp add: cutoffOf_def example_toISOString_def getRetentionCutoffDate_UTC sweep_2024_def)




lemma cleanup_try_image:
  "fst (cleanup_try (faults\<lparr>cleanupOldQuizImages_throws := x\<rparr>) cutoff db) =
     fst (cleanup_try faults cutoff db)
   \<and> fst (snd (cleanup_try (faults\<lparr>cleanupOldQuizImages_throws := x\<rparr>) cutoff db)) =
     fst (snd (cleanup_try faults cutoff db))"
  by (cases "select_throws faults"; cases "deleteAttempts_throws faults";
      cases "deleteQuestions_throws faults"; cases "deleteQuizzes_throws faults")
     (simp_all add: cleanup_try_def Let_def)

lemma cleanupExpiredQuizzes_image:
  "fst (cleanupExpiredQuizzes (faults\<lparr>cleanupOldQuizImages_throws := x\<rparr>) LocalTZA toISOString now db)
     = fst (cleanupExpiredQuizzes faults LocalTZA toISOString now db)
   \<and> fst (snd (cleanupExpiredQuizzes (faults\<lparr>cleanupOldQuizImages_throws := x\<rparr>)
                LocalTZA toISOString now db)) =
     fst (snd (cleanupExpiredQuizzes faults LocalTZA toISOString now db))"
proof -
  define cutoff where "cutoff = cutoffOf LocalTZA toISOString now"
  obtain r s c where a: "cleanup_try faults cutoff db = (r, s, c)"
    by (cases "cleanup_try faults cutoff db") auto
  obtain r' s' c' where b:
    "cleanup_try (faults\<lparr>cleanupOldQuizImages_throws := x\<rparr>) cutoff db = (r', s', c')"
    by (cases "cleanup_try (faults\<lparr>cleanupOldQuizImages_throws := x\<rparr>) cutoff db") auto
  from cleanup_try_image [where faults = faults and x = x and cutoff = cutoff and db = db] a b
  have "r' = r" "s' = s" by simp_all
  with a b show ?thesis
    by (cases r) (simp_all add: cleanupExpiredQuizzes_def Let_def cutoffOf_def [symmetric] cutoff_def [symmetric])
qed

lemma cleanup_try_shape:
  assumes "cleanup_try faults cutoff db = (Inr r, s, c)"
  shows "success r \<and> error r = None \<and>
         count r = Some (length (selectExpiredQuizzes cutoff db)) \<and>
         quizIds r = (if selectExpiredQuizzes cutoff db = [] then None
                      else Some (map quiz_id (selectExpiredQuizzes cutoff db)))"
  using assms
  by (cases "select_throws faults"; cases "deleteAttempts_throws faults";
      cases "deleteQuestions_throws faults"; cases "deleteQuizzes_throws faults";
      cases "selectExpiredQuizzes cutoff db = []")
     (auto simp: cleanup_try_def Let_def)

lemma cleanup_try_Inl:
  "(\<exists>e s c. cleanup_try faults cutoff db = (Inl e, s, c)) \<longleftrightarrow>
     select_throws faults \<noteq> None \<or>
     selectExpiredQuizzes cutoff db \<noteq> [] \<and>
       (deleteAttempts_throws faults \<noteq> None \<or> deleteQuestions_throws faults \<noteq> None \<or>
        deleteQuizzes_throws faults \<noteq> None)"
  by (cases "select_throws faults"; cases "deleteAttempts_throws faults";
      cases "deleteQuestions_throws faults"; cases "deleteQuizzes_throws faults";
      cases "selectExpiredQuizzes cutoff db = []")
     (auto simp: cleanup_try_def Let_def)

lemma cleanupExpiredQuizzes_cutoff:
  "cleanupExpiredQuizzes faults LocalTZA toISOString now db =
     (case cleanup_try faults (cutoffOf LocalTZA toISOString now) db of
        (Inl e, db', calls) \<Rightarrow>
          (\<lparr>success = False, message = ''Failed to clean up expired quizzes'',
            count = None, quizIds = None, error = Some e\<rparr>, db', calls)
      | (Inr result, db', calls) \<Rightarrow> (result, db', calls))"
  by (simp add: cleanupExpiredQuizzes_def Let_def cutoffOf_def)

text \<open>
  C8, as the code has it. Every sweep cycle returns a result object, whatever throws
  inside it: on success \<open>success: true\<close> with the count, and the quiz ids when at least
  one quiz was expired; on failure \<open>success: false\<close> with the error that left the
  \<open>try\<close> block. The cycle succeeds exactly when the select succeeds and either nothing
  is expired or the three deletes succeed. An exception of the image cleanup changes
  neither the result nor the database: the three deletes follow it. When no quiz is
  expired the cycle returns success with count 0 and no quiz ids, changes nothing and
  makes no call.
\<close>

theorem sweep_returns_result:
  assumes "cleanupExpiredQuizzes faults LocalTZA toISOString now db = (result, db', calls)"
  shows "((success result \<and> error result = None \<and>
           count result = Some (length (selectExpiredQuizzes (cutoffOf LocalTZA toISOString now) db)) \<and>
           quizIds result = (if selectExpiredQuizzes (cutoffOf LocalTZA toISOString now) db = [] then None
                             else Some (map quiz_id (selectExpiredQuizzes (cutoffOf LocalTZA toISOString now) db)))) \<or>
          (\<not> success result \<and> (\<exists>e. error result = Some e) \<and> count result = None \<and>
           quizIds result = None))
     \<and> (\<forall>e s c. cleanup_try faults (cutoffOf LocalTZA toISOString now) db = (Inl e, s, c) \<longrightarrow>
           \<not> success result \<and> error result = Some e)
     \<and> (success result \<longleftrightarrow>
          select_throws faults = None \<and>
          (selectExpiredQuizzes (cutoffOf LocalTZA toISOString now) db = [] \<or>
           deleteAttempts_throws faults = None \<and> deleteQuestions_throws faults = None \<and>
           deleteQuizzes_throws faults = None))
     \<and> (\<forall>x. fst (cleanupExpiredQuizzes (faults\<lparr>cleanupOldQuizImages_throws := x\<rparr>)
                   LocalTZA toISOString now db) = result \<and>
             fst (snd (cleanupExpiredQuizzes (faults\<lparr>cleanupOldQuizImages_throws := x\<rparr>)
                         LocalTZA toISOString now db)) = db')
     \<and> (\<forall>imageError.
           cleanupOldQuizImages_throws faults = Some imageError \<and> select_throws faults = None \<and>
           deleteAttempts_throws faults = None \<and> deleteQuestions_throws faults = None \<and>
           deleteQuizzes_throws faults = None \<and> selectExpiredQuizzes (cutoffOf LocalTZA toISOString now) db \<noteq> [] \<longrightarrow>
           success result \<and>
           calls = [CleanupImages (map quiz_id (selectExpiredQuizzes (cutoffOf LocalTZA toISOString now) db)),
                    ImageErrorLogged imageError,
                    DeleteAttempts (map quiz_id (selectExpiredQuizzes (cutoffOf LocalTZA toISOString now) db)),
                    DeleteQuestions (map quiz_id (selectExpiredQuizzes (cutoffOf LocalTZA toISOString now) db)),
                    DeleteQuizzes (map quiz_id (selectExpiredQuizzes (cutoffOf LocalTZA toISOString now) db))])
     \<and> (select_throws faults = None \<and> selectExpiredQuizzes (cutoffOf LocalTZA toISOString now) db = [] \<longrightarrow>
           success result \<and> count result = Some 0 \<and> quizIds result = None \<and>
           db' = db \<and> calls = [])"
proof -
  note unf = cleanupExpiredQuizzes_cutoff [of faults LocalTZA toISOString now db]
  obtain r s c where t: "cleanup_try faults (cutoffOf LocalTZA toISOString now) db = (r, s, c)"
    by (cases "cleanup_try faults (cutoffOf LocalTZA toISOString now) db") auto
  have shape: "(success result \<and> error result = None \<and>
           count result = Some (length (selectExpiredQuizzes (cutoffOf LocalTZA toISOString now) db)) \<and>
           quizIds result = (if selectExpiredQuizzes (cutoffOf LocalTZA toISOString now) db = [] then None
                             else Some (map quiz_id (selectExpiredQuizzes (cutoffOf LocalTZA toISOString now) db)))) \<or>
          (\<not> success result \<and> (\<exists>e. error result = Some e) \<and> count result = None \<and>
           quizIds result = None)"
  proof (cases r)
    case (Inl e)
    with t assms have "result = \<lparr>success = False, message = ''Failed to clean up expired quizzes'',
            count = None, quizIds = None, error = Some e\<rparr>"
      by (simp add: unf)
    then show ?thesis by simp
  next
    case (Inr r0)
    with t assms have "result = r0" by (simp add: unf)
    with cleanup_try_shape [of faults "cutoffOf LocalTZA toISOString now" db r0 s c] t Inr show ?thesis by simp
  qed
  have caught: "\<not> success result \<and> error result = Some e"
    if "cleanup_try faults (cutoffOf LocalTZA toISOString now) db = (Inl e, s', c')" for e s' c'
    using that assms by (auto simp: unf)
  have succ: "success result \<longleftrightarrow>
          select_throws faults = None \<and>
          (selectExpiredQuizzes (cutoffOf LocalTZA toISOString now) db = [] \<or>
           deleteAttempts_throws faults = None \<and> deleteQuestions_throws faults = None \<and>
           deleteQuizzes_throws faults = None)"
  proof (cases r)
    case (Inl e)
    with t have "\<exists>e s c. cleanup_try faults (cutoffOf LocalTZA toISOString now) db = (Inl e, s, c)" by blast
    then have "\<not> (select_throws faults = None \<and>
          (selectExpiredQuizzes (cutoffOf LocalTZA toISOString now) db = [] \<or>
           deleteAttempts_throws faults = None \<and> deleteQuestions_throws faults = None \<and>
           deleteQuizzes_throws faults = None))"
      unfolding cleanup_try_Inl by blast
    moreover have "\<not> success result" using caught t Inl by blast
    ultimately show ?thesis by blast
  next
    case (Inr r0)
    with t have "\<not> (\<exists>e s c. cleanup_try faults (cutoffOf LocalTZA toISOString now) db = (Inl e, s, c))" by simp
    then have "select_throws faults = None \<and>
          (selectExpiredQuizzes (cutoffOf LocalTZA toISOString now) db = [] \<or>
           deleteAttempts_throws faults = None \<and> deleteQuestions_throws faults = None \<and>
           deleteQuizzes_throws faults = None)"
      unfolding cleanup_try_Inl by blast
    moreover have "success result"
      using t Inr assms cleanup_try_shape [of faults "cutoffOf LocalTZA toISOString now" db r0 s c]
      by (simp add: unf)
    ultimately show ?thesis by blast
  qed
  have image: "fst (cleanupExpiredQuizzes (faults\<lparr>cleanupOldQuizImages_throws := x\<rparr>)
                   LocalTZA toISOString now db) = result \<and>
             fst (snd (cleanupExpiredQuizzes (faults\<lparr>cleanupOldQuizImages_throws := x\<rparr>)
                         LocalTZA toISOString now db)) = db'" for x
    using cleanupExpiredQuizzes_image [where faults = faults and x = x
        and LocalTZA = LocalTZA and toISOString = toISOString and now = now and db = db] assms
    by simp
  have after: "success result \<and>
           calls = [CleanupImages (map quiz_id (selectExpiredQuizzes (cutoffOf LocalTZA toISOString now) db)),
                    ImageErrorLogged imageError,
                    DeleteAttempts (map quiz_id (selectExpiredQuizzes (cutoffOf LocalTZA toISOString now) db)),
                    DeleteQuestions (map quiz_id (selectExpiredQuizzes (cutoffOf LocalTZA toISOString now) db)),
                    DeleteQuizzes (map quiz_id (selectExpiredQuizzes (cutoffOf LocalTZA toISOString now) db))]"
    if "cleanupOldQuizImages_throws faults = Some imageError \<and> select_throws faults = None \<and>
           deleteAttempts_throws faults = None \<and> deleteQuestions_throws faults = None \<and>
           deleteQuizzes_throws faults = None \<and> selectExpiredQuizzes (cutoffOf LocalTZA toISOString now) db \<noteq> []"
    for imageError
  proof -
    from that have h: "select_throws faults = None" "deleteAttempts_throws faults = None"
      "deleteQuestions_throws faults = None" "deleteQuizzes_throws faults = None"
      "selectExpiredQuizzes (cutoffOf LocalTZA toISOString now) db \<noteq> []"
      and i: "cleanupOldQuizImages_throws faults = Some imageError"
      by simp_all
    show ?thesis
      using assms i unfolding cleanupExpiredQuizzes_ok [OF h] by auto
  qed
  have early: "success result \<and> count result = Some 0 \<and> quizIds result = None \<and>
           db' = db \<and> calls = []"
    if "select_throws faults = None \<and> selectExpiredQuizzes (cutoffOf LocalTZA toISOString now) db = []"
  proof -
    from that have h: "select_throws faults = None" "selectExpiredQuizzes (cutoffOf LocalTZA toISOString now) db = []"
      by simp_all
    show ?thesis
      using assms unfolding cleanupExpiredQuizzes_none [OF h] by auto
  qed
  from shape caught succ image after early show ?thesis by blast
qed

theorem sweep_returns_result_witness:
  "success (fst (cleanupExpiredQuizzes
                  (no_faults\<lparr>cleanupOldQuizImages_throws := Some ''Error: timeout''\<rparr>)
                  LocalTZA_UTC example_toISOString sweep_2024 example_db))
   \<and> snd (snd (cleanupExpiredQuizzes
                 (no_faults\<lparr>cleanupOldQuizImages_throws := Some ''Error: timeout''\<rparr>)
                 LocalTZA_UTC example_toISOString sweep_2024 example_db)) =
       [CleanupImages [1], ImageErrorLogged ''Error: timeout'', DeleteAttempts [1],
        DeleteQuestions [1], DeleteQuizzes [1]]
   \<and> \<not> success (fst (cleanupExpiredQuizzes (no_faults\<lparr>deleteQuestions_throws := Some ''Error: locked''\<rparr>)
                  LocalTZA_UTC example_toISOString sweep_2024 example_db))
   \<and> error (fst (cleanupExpiredQuizzes (no_faults\<lparr>deleteQuestions_throws := Some ''Error: locked''\<rparr>)
                  LocalTZA_UTC example_toISOString sweep_2024 example_db)) = Some ''Error: locked''"
proof -
  let ?f = "no_faults\<lparr>cleanupOldQuizImages_throws := Some ''Error: timeout''\<rparr>"
  let ?r = "cleanupExpiredQuizzes ?f LocalTZA_UTC example_toISOString sweep_2024 example_db"
  have e: "?r = (fst ?r, fst (snd ?r), snd (snd ?r))" by simp
  note T = sweep_returns_result [OF e, unfolded example_cutoff_2024]
  have h: "cleanupOldQuizImages_throws ?f = Some ''Error: timeout'' \<and> select_throws ?f = None \<and>
           deleteAttempts_throws ?f = None \<and> deleteQuestions_throws ?f = None \<and>
           deleteQuizzes_throws ?f = None \<and> selectExpiredQuizzes example_cutoff example_db \<noteq> []"
    by (simp add: no_faults_def example_selectExpired)
  have ids: "map quiz_id (selectExpiredQuizzes example_cutoff example_db) = [1]"
    by (simp add: example_selectExpired example_quiz_def)
  have a: "success (fst ?r) \<and>
      snd (snd ?r) = [CleanupImages [1], ImageErrorLogged ''Error: timeout'', DeleteAttempts [1],
        DeleteQuestions [1], DeleteQuizzes [1]]"
    using T [THEN conjunct2, THEN conjunct2, THEN conjunct2, THEN conjunct2, THEN conjunct1] h
    unfolding ids by blast
  let ?g = "no_faults\<lparr>deleteQuestions_throws := Some ''Error: locked''\<rparr>"
  let ?s = "cleanupExpiredQuizzes ?g LocalTZA_UTC example_toISOString sweep_2024 example_db"
  have e': "?s = (fst ?s, fst (snd ?s), snd (snd ?s))" by simp
  note U = sweep_returns_result [OF e', unfolded example_cutoff_2024]
  have t: "\<exists>s c. cleanup_try ?g example_cutoff example_db = (Inl ''Error: locked'', s, c)"
    by (simp add: cleanup_try_def Let_def no_faults_def example_selectExpired)
  have b: "\<not> success (fst ?s) \<and> error (fst ?s) = Some ''Error: locked''"
    using U [THEN conjunct2, THEN conjunct1] t by blast
  from a b show ?thesis by blast
qed

text \<open>
  C8 as stated fails: a sweep on 8 January 2023, whose cutoff is before every quiz of the
  example, succeeds, and the object it returns has no \<open>quizIds\<close> field.
\<close>

theorem sweep_returns_result_counterexample:
  "success (fst (cleanupExpiredQuizzes no_faults LocalTZA_UTC example_toISOString sweep_2023 example_db))
   \<and> count (fst (cleanupExpiredQuizzes no_faults LocalTZA_UTC example_toISOString sweep_2023 example_db)) = Some 0
   \<and> quizIds (fst (cleanupExpiredQuizzes no_faults LocalTZA_UTC example_toISOString sweep_2023 example_db)) = None"
proof -
  have c: "cutoffOf LocalTZA_UTC example_toISOString sweep_2023 = ''2023-01-01T00:00:00.000Z''"
    by (simp add: cutoffOf_def example_toISOString_def getRetentionCutoffDate_def Let_def LocalTZA_UTC_def sweep_2023_def)
  have a: "selectExpiredQuizzes (cutoffOf LocalTZA_UTC example_toISOString sweep_2023) example_db = []"
    unfolding c by (simp add: selectExpiredQuizzes_def example_db_def example_quiz_def)
  have b: "select_throws no_faults = None" by (simp add: no_faults_def)
  show ?thesis
    by (simp add: cleanupExpiredQuizzes_none [OF b a])
qed

section \<open>Facts about recording an attempt\<close>

lemma verifyAll_Some:
  "verifyAll JSON_parse qs as = Some bs \<longleftrightarrow> map (verifyRecorded JSON_parse qs) as = map Some bs"
proof (induction as arbitrary: bs)
  case Nil
  then show ?case by auto
next
  case (Cons a as)
  show ?case
  proof (cases "verifyRecorded JSON_parse qs a")
    case None
    then show ?thesis by (cases bs) auto
  next
    case (Some b)
    show ?thesis
    proof (cases "verifyAll JSON_parse qs as")
      case None
      with Cons.IH have "\<And>bs'. map (verifyRecorded JSON_parse qs) as \<noteq> map Some bs'" by simp
      with None Some show ?thesis by (cases bs) auto
    next
      case vs: (Some bs')
      with Cons.IH [of bs'] have m: "map (verifyRecorded JSON_parse qs) as = map Some bs'" by simp
      have "map Some bs' = map Some bs'' \<longleftrightarrow> bs' = bs''" for bs''
        by (simp add: inj_map_eq_map)
      with vs Some m show ?thesis by (cases bs) auto
    qed
  qed
qed

lemma createQuizAttempt_score_irrelevant:
  "createQuizAttempt JSON_parse decodeAnswers now (attemptData\<lparr>insert_score := s\<rparr>) db =
   createQuizAttempt JSON_parse decodeAnswers now attemptData db"
  by (simp add: createQuizAttempt_def Let_def split: option.splits)

lemma createQuizAttempt_Inr:
  assumes "createQuizAttempt JSON_parse decodeAnswers now attemptData db = (Inr attempt, db')"
  shows "\<exists>answers results.
           decodeAnswers (insert_answers attemptData) = Some answers \<and>
           verifyAll JSON_parse (questions db) answers = Some results \<and>
           attempt_score attempt =
             max 0 (min (int (length (filter (\<lambda>q. question_quizId q = insert_quizId attemptData)
                                        (questions db))))
                        (int (length (filter (\<lambda>b. b) results)))) \<and>
           attempt_quizId attempt = insert_quizId attemptData \<and>
           db' = db\<lparr>quizAttempts := quizAttempts db @ [attempt]\<rparr>"
  using assms
  by (auto simp: createQuizAttempt_def Let_def split: option.splits)

lemma example_verifyRecorded:
  "verifyRecorded example_JSON_parse (questions example_db5)
     \<lparr>answer_questionId = 1, answer_userAnswer = Str ''A''\<rparr> = Some True"
  "verifyRecorded example_JSON_parse (questions example_db5)
     \<lparr>answer_questionId = 2, answer_userAnswer = Arr [''A'']\<rparr> = Some False"
  by (simp_all add: verifyRecorded_def example_db5_def example_question_def correctAnswersOf_def
      example_JSON_parse_def verifyAnswer_def new_Set_def Set_add_def normalize_examples)

lemma example_createQuizAttempt:
  "createQuizAttempt example_JSON_parse example_decodeAnswers ''2024-01-03T00:00:00.000Z''
     (example_insert_attempt score) example_db5 =
   (Inr example_stored, example_db5\<lparr>quizAttempts := [example_stored]\<rparr>)"
proof -
  have c: "length (filter (\<lambda>q. question_quizId q = 1) (questions example_db5)) = 5"
    by (simp add: example_db5_def example_question_def)
  have a: "quizAttempts example_db5 = []"
    by (simp add: example_db5_def)
  show ?thesis
    by (simp add: createQuizAttempt_def example_insert_attempt_def example_decodeAnswers_def
        example_verifyRecorded c a nextAttemptId_def example_stored_def Let_def)
qed

text \<open>
  C1. With the attempt storage of the spec, an attempt that POST /api/quiz-attempts
  records (status 201) carries a score computed by the Answer Verifier, one call per
  recorded answer: the number of answers verified correct, clamped to the range from 0 to
  the number of questions of the quiz. The score in the request body has no influence:
  the same request with any other claimed score stores the same attempt.
\<close>

theorem attempt_score_recomputed:
  assumes "createQuizAttempt_handler (createQuizAttempt JSON_parse decodeAnswers now)
             (Inr attemptData) db = (Response 201 payload, db')"
  shows "(\<exists>attempt answers results.
            payload = attempt_json attempt \<and>
            db' = db\<lparr>quizAttempts := quizAttempts db @ [attempt]\<rparr> \<and>
            decodeAnswers (insert_answers attemptData) = Some answers \<and>
            map (verifyRecorded JSON_parse (questions db)) answers = map Some results \<and>
            attempt_score attempt =
              max 0 (min (int (length (filter (\<lambda>q. question_quizId q = insert_quizId attemptData)
                                         (questions db))))
                         (int (length (filter (\<lambda>b. b) results)))) \<and>
            0 \<le> attempt_score attempt \<and>
            attempt_score attempt \<le>
              int (length (filter (\<lambda>q. question_quizId q = insert_quizId attemptData)
                             (questions db))))
         \<and> (\<forall>s. createQuizAttempt_handler (createQuizAttempt JSON_parse decodeAnswers now)
                  (Inr (attemptData\<lparr>insert_score := s\<rparr>)) db = (Response 201 payload, db'))"
proof -
  obtain r s where c: "createQuizAttempt JSON_parse decodeAnswers now attemptData db = (r, s)"
    by (cases "createQuizAttempt JSON_parse decodeAnswers now attemptData db") auto
  from assms c obtain attempt where r: "r = Inr attempt"
    by (cases r) (auto simp: createQuizAttempt_handler_def)
  from assms c r have b: "payload = attempt_json attempt" and s: "s = db'"
    by (simp_all add: createQuizAttempt_handler_def)
  from createQuizAttempt_Inr [of JSON_parse decodeAnswers now attemptData db attempt db'] c r s
  obtain answers results where
    d: "decodeAnswers (insert_answers attemptData) = Some answers" and
    v: "verifyAll JSON_parse (questions db) answers = Some results" and
    sc: "attempt_score attempt =
             max 0 (min (int (length (filter (\<lambda>q. question_quizId q = insert_quizId attemptData)
                                        (questions db))))
                        (int (length (filter (\<lambda>b. b) results))))" and
    db': "db' = db\<lparr>quizAttempts := quizAttempts db @ [attempt]\<rparr>"
    by auto
  have m: "map (verifyRecorded JSON_parse (questions db)) answers = map Some results"
    using v by (simp add: verifyAll_Some)
  have lo: "0 \<le> attempt_score attempt" using sc by simp
  have hi: "attempt_score attempt \<le>
              int (length (filter (\<lambda>q. question_quizId q = insert_quizId attemptData)
                             (questions db)))"
    using sc by simp
  have same: "createQuizAttempt_handler (createQuizAttempt JSON_parse decodeAnswers now)
                  (Inr (attemptData\<lparr>insert_score := s'\<rparr>)) db = (Response 201 payload, db')" for s'
    using assms
    by (simp add: createQuizAttempt_handler_def createQuizAttempt_score_irrelevant)
  from b db' d m sc lo hi same show ?thesis by blast
qed

theorem attempt_score_recomputed_witness:
  "createQuizAttempt_handler
     (createQuizAttempt example_JSON_parse example_decodeAnswers ''2024-01-03T00:00:00.000Z'')
     (Inr (example_insert_attempt 999)) example_db5 =
     (Response 201 (attempt_json example_stored), example_db5\<lparr>quizAttempts := [example_stored]\<rparr>)
   \<and> createQuizAttempt_handler
     (createQuizAttempt example_JSON_parse example_decodeAnswers ''2024-01-03T00:00:00.000Z'')
     (Inr ((example_insert_attempt 999)\<lparr>insert_score := 0\<rparr>)) example_db5 =
     (Response 201 (attempt_json example_stored), example_db5\<lparr>quizAttempts := [example_stored]\<rparr>)
   \<and> attempt_score example_stored = 1
   \<and> length (questions example_db5) = 5"
proof -
  have h: "createQuizAttempt_handler
     (createQuizAttempt example_JSON_parse example_decodeAnswers ''2024-01-03T00:00:00.000Z'')
     (Inr (example_insert_attempt 999)) example_db5 =
     (Response 201 (attempt_json example_stored), example_db5\<lparr>quizAttempts := [example_stored]\<rparr>)"
    by (simp add: createQuizAttempt_handler_def example_createQuizAttempt)
  have "createQuizAttempt_handler
     (createQuizAttempt example_JSON_parse example_decodeAnswers ''2024-01-03T00:00:00.000Z'')
     (Inr ((example_insert_attempt 999)\<lparr>insert_score := 0\<rparr>)) example_db5 =
     (Response 201 (attempt_json example_stored), example_db5\<lparr>quizAttempts := [example_stored]\<rparr>)"
    using attempt_score_recomputed [OF h, THEN conjunct2] by blast
  moreover have "attempt_score example_stored = 1" by (simp add: example_stored_def)
  moreover have "length (questions example_db5) = 5" by (simp add: example_db5_def)
  ultimately show ?thesis using h by blast
qed

end
